theory Spec2Isabelle
  imports Main "HOL-Library.Sublist"
begin

section \<open>Data model of the TransIP DNS01 solver (main.go)\<close>

text \<open>
  Go strings and byte slices are sequences of bytes; both are modelled as \<open>string\<close>
  (a list of 8-bit characters). Go's \<open>int\<close> is used for the TTL only, which is copied
  and compared for equality and never computed with, so it is modelled as \<open>int\<close>.
  Output written with \<open>fmt.Printf\<close> is not part of the model.
\<close>

type_synonym bytes = string

text \<open>
  Errors are values. \<open>ExternalError\<close> stands for an error produced by a library outside
  the repository (the Kubernetes client, the TransIP client, the JSON decoder, the zone
  lookup); the two other constructors are the errors main.go builds itself with
  \<open>fmt.Errorf\<close>: the wrapped decoding error of \<open>loadConfig\<close> and the missing-key
  error of \<open>NewTransipClient\<close> (its three arguments in the order of the format string).
\<close>

datatype error =
    ExternalError string
  | ErrorDecodingSolverConfig error
  | NoPrivateKeyInSecret string string string

text \<open>\<open>domain.DNSEntry\<close> of the TransIP library: four fields, compared with \<open>==\<close>.\<close>

record DNSEntry =
  Name :: string
  Expire :: int
  Type :: string
  Content :: string

text \<open>
  \<open>v1.SecretKeySelector\<close>: the name of the secret and the key inside its data
  (Go: \<open>PrivateKeySecretRef.Name\<close> and \<open>PrivateKeySecretRef.Key\<close>).
\<close>

record SecretKeySelector =
  SecretName :: string
  SecretKey :: string

record transipDNSProviderConfig =
  AccountName :: string
  PrivateKey :: bytes
  PrivateKeySecretRef :: SecretKeySelector
  TTL :: int

text \<open>
  The fields of \<open>v1alpha1.ChallengeRequest\<close> that main.go reads. \<open>Config\<close> is the
  pointer \<open>*extapi.JSON\<close>: \<open>None\<close> is nil, \<open>Some raw\<close> carries the raw bytes.
\<close>

record ChallengeRequest =
  ResourceNamespace :: string
  ResolvedFQDN :: string
  ResolvedZone :: string
  Key :: string
  Config :: "bytes option"

text \<open>\<open>v1.Secret\<close>: only its \<open>Data\<close> map is read.\<close>

record Secret =
  Data :: "string \<rightharpoonup> bytes"

text \<open>
  The solver holds the Kubernetes clientset that \<open>Initialize\<close> stored in it; the
  clientset is modelled by what \<open>CoreV1().Secrets(ns).Get(ctx, name, opts)\<close> answers.
  The model starts after a successful \<open>Initialize\<close>, so the pointer is never nil.
\<close>

record transipDNSProviderSolver =
  client :: "string \<Rightarrow> string \<Rightarrow> error + Secret"

text \<open>\<open>repository.Client\<close>, built from the account name and the private key.\<close>

datatype Client = Client (ClientAccountName: string) (ClientPrivateKey: bytes)

section \<open>The world outside the adapter\<close>

text \<open>
  The answers of the libraries the adapter delegates to are parameters of the model:
  the zone discovery \<open>util.FindZoneByFqdn\<close>, the JSON decoder applied to the
  configuration struct (it returns the struct as decoded so far and the error, if any),
  whether \<open>gotransip.NewClient\<close> and each of the three provider calls fail.
\<close>

record env =
  FindZoneByFqdn :: "string \<Rightarrow> error + string"
  json_Unmarshal ::
    "bytes \<Rightarrow> transipDNSProviderConfig \<Rightarrow> transipDNSProviderConfig \<times> error option"
  NewClient_error :: "string \<Rightarrow> bytes \<Rightarrow> error option"
  GetDNSEntries_error :: "string \<Rightarrow> error option"
  AddDNSEntry_error :: "string \<Rightarrow> DNSEntry \<Rightarrow> error option"
  RemoveDNSEntry_error :: "string \<Rightarrow> DNSEntry \<Rightarrow> error option"

text \<open>
  Every call into the Kubernetes client and the TransIP library is recorded, in order,
  next to the provider's record lists (one list of DNS entries per domain name).
\<close>

datatype call =
    CallSecretsGet string string
  | CallNewClient string bytes
  | CallGetDNSEntries string
  | CallAddDNSEntry string DNSEntry
  | CallRemoveDNSEntry string DNSEntry

record world =
  zone_records :: "string \<Rightarrow> DNSEntry list"
  calls :: "call list"

fun is_add :: "call \<Rightarrow> bool" where
  "is_add (CallAddDNSEntry d e) = True"
| "is_add _ = False"

fun is_remove :: "call \<Rightarrow> bool" where
  "is_remove (CallRemoveDNSEntry d e) = True"
| "is_remove _ = False"

fun is_secret_lookup :: "call \<Rightarrow> bool" where
  "is_secret_lookup (CallSecretsGet ns n) = True"
| "is_secret_lookup _ = False"

definition adds :: "world \<Rightarrow> call list" where
  "adds w = filter is_add (calls w)"

definition removes :: "world \<Rightarrow> call list" where
  "removes w = filter is_remove (calls w)"

definition secret_lookups :: "world \<Rightarrow> call list" where
  "secret_lookups w = filter is_secret_lookup (calls w)"

definition log_call :: "call \<Rightarrow> world \<Rightarrow> world" where
  "log_call k w = w\<lparr>calls := calls w @ [k]\<rparr>"

text \<open>
  The Kubernetes secret lookup and the TransIP client library, as the adapter sees
  them. A provider call that fails leaves the record list as it was; a successful add
  appends the entry to the domain's list; a successful remove deletes one entry equal
  to the given one (the provider's "remove a single DNS entry").
\<close>

definition Secrets_Get ::
  "transipDNSProviderSolver \<Rightarrow> string \<Rightarrow> string \<Rightarrow> world
     \<Rightarrow> (error + Secret) \<times> world" where
  "Secrets_Get c ns name w = (client c ns name, log_call (CallSecretsGet ns name) w)"

definition gotransip_NewClient ::
  "env \<Rightarrow> string \<Rightarrow> bytes \<Rightarrow> world \<Rightarrow> (error + Client) \<times> world" where
  "gotransip_NewClient E account privateKey w =
     (case NewClient_error E account privateKey of
        Some err \<Rightarrow> (Inl err, log_call (CallNewClient account privateKey) w)
      | None \<Rightarrow> (Inr (Client account privateKey), log_call (CallNewClient account privateKey) w))"

definition GetDNSEntries ::
  "env \<Rightarrow> Client \<Rightarrow> string \<Rightarrow> world \<Rightarrow> (error + DNSEntry list) \<times> world" where
  "GetDNSEntries E cl domainName w =
     (case GetDNSEntries_error E domainName of
        Some err \<Rightarrow> (Inl err, log_call (CallGetDNSEntries domainName) w)
      | None \<Rightarrow> (Inr (zone_records w domainName), log_call (CallGetDNSEntries domainName) w))"

definition AddDNSEntry ::
  "env \<Rightarrow> Client \<Rightarrow> string \<Rightarrow> DNSEntry \<Rightarrow> world \<Rightarrow> error option \<times> world" where
  "AddDNSEntry E cl domainName entry w =
     (case AddDNSEntry_error E domainName entry of
        Some err \<Rightarrow> (Some err, log_call (CallAddDNSEntry domainName entry) w)
      | None \<Rightarrow>
          (None, log_call (CallAddDNSEntry domainName entry)
             (w\<lparr>zone_records :=
                  (zone_records w)(domainName := zone_records w domainName @ [entry])\<rparr>)))"

definition RemoveDNSEntry ::
  "env \<Rightarrow> Client \<Rightarrow> string \<Rightarrow> DNSEntry \<Rightarrow> world \<Rightarrow> error option \<times> world" where
  "RemoveDNSEntry E cl domainName entry w =
     (case RemoveDNSEntry_error E domainName entry of
        Some err \<Rightarrow> (Some err, log_call (CallRemoveDNSEntry domainName entry) w)
      | None \<Rightarrow>
          (None, log_call (CallRemoveDNSEntry domainName entry)
             (w\<lparr>zone_records :=
                  (zone_records w)(domainName := remove1 entry (zone_records w domainName))\<rparr>)))"

section \<open>String helpers\<close>

text \<open>
  Two library functions that main.go calls on strings. They belong to the Go standard
  library and to cert-manager, not to the repository, and are modelled by what they are
  documented to compute.

  \<open>strings.Index(s, substr)\<close>: the index of the first instance of \<open>substr\<close> in
  \<open>s\<close>, or \<open>-1\<close> when there is none.
\<close>

fun strings_Index :: "string \<Rightarrow> string \<Rightarrow> int" where
  "strings_Index [] substr = (if substr = [] then 0 else - 1)"
| "strings_Index (c # s) substr =
     (if prefix substr (c # s) then 0
      else (let i = strings_Index s substr in if i = - 1 then - 1 else i + 1))"

text \<open>
  \<open>util.UnFqdn\<close> of the cert-manager library: \<open>n := len(name); if n != 0 &&
  name[n-1] == '.' { return name[:n-1] }; return name\<close>.
\<close>

definition UnFqdn :: "string \<Rightarrow> string" where
  "UnFqdn name =
     (let n = length name in
      if n \<noteq> 0 \<and> name ! (n - 1) = CHR ''.'' then take (n - 1) name else name)"

section \<open>The functions of main.go\<close>

definition extractRecordName :: "string \<Rightarrow> string \<Rightarrow> string" where
  "extractRecordName fqdn domain =
     (let idx = strings_Index fqdn (''.'' @ domain) in
      if idx \<noteq> - 1 then take (nat idx) fqdn else UnFqdn fqdn)"

definition extractDomainName :: "env \<Rightarrow> string \<Rightarrow> string" where
  "extractDomainName E zone =
     (case FindZoneByFqdn E zone of
        Inl err \<Rightarrow> zone
      | Inr authZone \<Rightarrow> UnFqdn authZone)"

text \<open>The zero value of the configuration struct, \<open>transipDNSProviderConfig{}\<close>.\<close>

definition zero_config :: transipDNSProviderConfig where
  "zero_config =
     \<lparr>AccountName = [], PrivateKey = [],
      PrivateKeySecretRef = \<lparr>SecretName = [], SecretKey = []\<rparr>, TTL = 0\<rparr>"

text \<open>\<open>loadConfig\<close> returns the struct together with the error, as the Go function does.\<close>

definition loadConfig ::
  "env \<Rightarrow> bytes option \<Rightarrow> transipDNSProviderConfig \<times> error option" where
  "loadConfig E cfgJSON =
     (case cfgJSON of
        None \<Rightarrow> (zero_config, None)
      | Some raw \<Rightarrow>
          (case json_Unmarshal E raw zero_config of
             (cfg, Some err) \<Rightarrow> (cfg, Some (ErrorDecodingSolverConfig err))
           | (cfg, None) \<Rightarrow> (cfg, None)))"

definition NewTransipClient ::
  "env \<Rightarrow> transipDNSProviderSolver \<Rightarrow> ChallengeRequest \<Rightarrow> transipDNSProviderConfig
     \<Rightarrow> world \<Rightarrow> (error + Client) \<times> world" where
  "NewTransipClient E c ch cfg w =
     (if length (PrivateKey cfg) = 0 then
        (case Secrets_Get c (ResourceNamespace ch) (SecretName (PrivateKeySecretRef cfg)) w of
           (Inl err, w1) \<Rightarrow> (Inl err, w1)
         | (Inr secret, w1) \<Rightarrow>
             (case Data secret (SecretKey (PrivateKeySecretRef cfg)) of
                None \<Rightarrow>
                  (Inl (NoPrivateKeyInSecret (SecretName (PrivateKeySecretRef cfg))
                          (SecretKey (PrivateKeySecretRef cfg)) (ResourceNamespace ch)), w1)
              | Some privateKey \<Rightarrow> gotransip_NewClient E (AccountName cfg) privateKey w1))
      else gotransip_NewClient E (AccountName cfg) (PrivateKey cfg) w)"

definition NewDNSEntryFromChallenge ::
  "ChallengeRequest \<Rightarrow> transipDNSProviderConfig \<Rightarrow> string \<Rightarrow> DNSEntry" where
  "NewDNSEntryFromChallenge ch cfg domainName =
     \<lparr>Name = extractRecordName (ResolvedFQDN ch) domainName,
      Expire = TTL cfg,
      Type = ''TXT'',
      Content = Key ch\<rparr>"

text \<open>
  The loop of \<open>Present\<close>: \<open>for _, s := range dnsEntries { if s == acmeDnsEntry
  { return nil } }\<close>. It answers whether the early return was taken.
\<close>

fun Present_loop :: "DNSEntry list \<Rightarrow> DNSEntry \<Rightarrow> bool" where
  "Present_loop [] acmeDnsEntry = False"
| "Present_loop (s # rest) acmeDnsEntry =
     (if s = acmeDnsEntry then True else Present_loop rest acmeDnsEntry)"

definition Present ::
  "env \<Rightarrow> transipDNSProviderSolver \<Rightarrow> ChallengeRequest \<Rightarrow> world
     \<Rightarrow> error option \<times> world" where
  "Present E c ch w =
     (let domainName = extractDomainName E (ResolvedZone ch) in
      case loadConfig E (Config ch) of
        (cfg, Some err) \<Rightarrow> (Some err, w)
      | (cfg, None) \<Rightarrow>
          (case NewTransipClient E c ch cfg w of
             (Inl err, w1) \<Rightarrow> (Some err, w1)
           | (Inr cl, w1) \<Rightarrow>
               (case GetDNSEntries E cl domainName w1 of
                  (Inl err, w2) \<Rightarrow> (Some err, w2)
                | (Inr dnsEntries, w2) \<Rightarrow>
                    (let acmeDnsEntry = NewDNSEntryFromChallenge ch cfg domainName in
                     if Present_loop dnsEntries acmeDnsEntry then (None, w2)
                     else AddDNSEntry E cl domainName acmeDnsEntry w2))))"

text \<open>
  The loop of \<open>CleanUp\<close>: at the first entry equal to the target it calls
  \<open>RemoveDNSEntry\<close> and returns what that call returned; when the list is exhausted
  it returns nil.
\<close>

fun CleanUp_loop ::
  "env \<Rightarrow> Client \<Rightarrow> string \<Rightarrow> DNSEntry \<Rightarrow> DNSEntry list \<Rightarrow> world
     \<Rightarrow> error option \<times> world" where
  "CleanUp_loop E cl domainName acmeDnsEntry [] w = (None, w)"
| "CleanUp_loop E cl domainName acmeDnsEntry (s # rest) w =
     (if s = acmeDnsEntry then RemoveDNSEntry E cl domainName acmeDnsEntry w
      else CleanUp_loop E cl domainName acmeDnsEntry rest w)"

definition CleanUp ::
  "env \<Rightarrow> transipDNSProviderSolver \<Rightarrow> ChallengeRequest \<Rightarrow> world
     \<Rightarrow> error option \<times> world" where
  "CleanUp E c ch w =
     (let domainName = extractDomainName E (ResolvedZone ch) in
      case loadConfig E (Config ch) of
        (cfg, Some err) \<Rightarrow> (Some err, w)
      | (cfg, None) \<Rightarrow>
          (case NewTransipClient E c ch cfg w of
             (Inl err, w1) \<Rightarrow> (Some err, w1)
           | (Inr cl, w1) \<Rightarrow>
               (case GetDNSEntries E cl domainName w1 of
                  (Inl err, w2) \<Rightarrow> (Some err, w2)
                | (Inr dnsEntries, w2) \<Rightarrow>
                    CleanUp_loop E cl domainName
                      (NewDNSEntryFromChallenge ch cfg domainName) dnsEntries w2)))"

text \<open>
  The entry both operations look for: built from the request, the decoded
  configuration and the resolved domain name.
\<close>

definition target_entry :: "env \<Rightarrow> ChallengeRequest \<Rightarrow> DNSEntry" where
  "target_entry E ch =
     NewDNSEntryFromChallenge ch (fst (loadConfig E (Config ch)))
       (extractDomainName E (ResolvedZone ch))"

text \<open>
  A call of \<open>Present\<close> or \<open>CleanUp\<close> gets as far as the provider's list when the
  configuration decodes, the client is built and listing the domain's entries succeeds.
\<close>

definition list_fetched ::
  "env \<Rightarrow> transipDNSProviderSolver \<Rightarrow> ChallengeRequest \<Rightarrow> world \<Rightarrow> bool" where
  "list_fetched E c ch w =
     (snd (loadConfig E (Config ch)) = None
      \<and> (case fst (NewTransipClient E c ch (fst (loadConfig E (Config ch))) w) of
            Inl err \<Rightarrow> False | Inr cl \<Rightarrow> True)
      \<and> GetDNSEntries_error E (extractDomainName E (ResolvedZone ch)) = None)"

section \<open>Example inputs\<close>

text \<open>
  A concrete setting used to instantiate the theorems below: the configuration of the
  repository's example issuer (credentials by secret reference, TTL 300), a challenge
  for \<open>example.com\<close>, a secret store holding the referenced key, and a provider that
  answers every call.
\<close>

definition example_raw :: bytes where
  \<open>example_raw = ''{"accountName":"acme","ttl":300,"privateKeySecretRef":{"name":"transip-credentials","key":"privateKey"}}''\<close>

definition example_config :: transipDNSProviderConfig where
  "example_config =
     \<lparr>AccountName = ''acme'', PrivateKey = [],
      PrivateKeySecretRef = \<lparr>SecretName = ''transip-credentials'', SecretKey = ''privateKey''\<rparr>,
      TTL = 300\<rparr>"

definition example_env :: env where
  "example_env =
     \<lparr>FindZoneByFqdn = (\<lambda>zone. if zone = ''example.com.'' then Inr ''example.com.''
                               else Inl (ExternalError ''no SOA record'')),
      json_Unmarshal = (\<lambda>raw cfg. if raw = example_raw then (example_config, None)
                                  else (cfg, Some (ExternalError ''invalid character''))),
      NewClient_error = (\<lambda>account privateKey. None),
      GetDNSEntries_error = (\<lambda>domainName. None),
      AddDNSEntry_error = (\<lambda>domainName entry. None),
      RemoveDNSEntry_error = (\<lambda>domainName entry. None)\<rparr>"

definition example_solver :: transipDNSProviderSolver where
  "example_solver =
     \<lparr>client = (\<lambda>ns name. if ns = ''cert-manager'' \<and> name = ''transip-credentials''
                            then Inr \<lparr>Data = [''privateKey'' \<mapsto> ''PEM'']\<rparr>
                            else Inl (ExternalError ''secret not found''))\<rparr>"

definition example_request :: ChallengeRequest where
  "example_request =
     \<lparr>ResourceNamespace = ''cert-manager'',
      ResolvedFQDN = ''_acme-challenge.example.com.'',
      ResolvedZone = ''example.com.'',
      Key = ''token-1'',
      Config = Some example_raw\<rparr>"

definition example_target :: DNSEntry where
  "example_target =
     \<lparr>Name = ''_acme-challenge'', Expire = 300, Type = ''TXT'', Content = ''token-1''\<rparr>"

definition other_value_entry :: DNSEntry where
  "other_value_entry =
     \<lparr>Name = ''_acme-challenge'', Expire = 300, Type = ''TXT'', Content = ''token-2''\<rparr>"

definition other_ttl_entry :: DNSEntry where
  "other_ttl_entry =
     \<lparr>Name = ''_acme-challenge'', Expire = 60, Type = ''TXT'', Content = ''token-1''\<rparr>"

definition example_world :: "DNSEntry list \<Rightarrow> world" where
  "example_world entries =
     \<lparr>zone_records = (\<lambda>domainName. if domainName = ''example.com'' then entries else []),
      calls = []\<rparr>"

definition example_start :: world where
  "example_start = example_world [other_value_entry]"

definition example_presented :: world where
  "example_presented = snd (Present example_env example_solver example_request example_start)"

definition example_presented_twice :: world where
  "example_presented_twice
     = snd (Present example_env example_solver example_request example_presented)"

definition example_duplicates :: world where
  "example_duplicates = example_world [example_target, other_value_entry, example_target]"

definition example_cleaned :: world where
  "example_cleaned = snd (CleanUp example_env example_solver example_request example_duplicates)"

definition example_untouched :: world where
  "example_untouched = snd (CleanUp example_env example_solver example_request example_start)"

definition undecodable_request :: ChallengeRequest where
  "undecodable_request = example_request\<lparr>Config := Some ''accountName: acme''\<rparr>"

definition other_namespace_request :: ChallengeRequest where
  "other_namespace_request = example_request\<lparr>ResourceNamespace := ''default''\<rparr>"

definition failing_list_env :: env where
  "failing_list_env =
     example_env\<lparr>GetDNSEntries_error := (\<lambda>domainName. Some (ExternalError ''service unavailable''))\<rparr>"

definition example_other_ttl :: world where
  "example_other_ttl = example_world [other_ttl_entry]"

definition inline_key_config :: transipDNSProviderConfig where
  "inline_key_config = example_config\<lparr>PrivateKey := ''INLINE-PEM''\<rparr>"

definition missing_key_config :: transipDNSProviderConfig where
  "missing_key_config =
     example_config\<lparr>PrivateKeySecretRef :=
       \<lparr>SecretName = ''transip-credentials'', SecretKey = ''tls.key''\<rparr>\<rparr>"

definition no_zone_env :: env where
  "no_zone_env = example_env\<lparr>FindZoneByFqdn := (\<lambda>zone. Inl (ExternalError ''no SOA record''))\<rparr>"

section \<open>Facts about the string helpers\<close>

lemma strings_Index_lower: "- 1 \<le> strings_Index s sub"
  by (induction s) (auto simp: Let_def)

text \<open>The model of \<open>strings.Index\<close> answers \<open>-1\<close> exactly when there is no occurrence.\<close>

lemma strings_Index_absent: "(strings_Index s sub = - 1) = (\<not> sublist sub s)"
proof (induction s)
  case Nil
  then show ?case by auto
next
  case (Cons c s)
  have "- 1 \<le> strings_Index s sub" by (rule strings_Index_lower)
  then have ne: "strings_Index s sub + 1 \<noteq> - 1" by arith
  show ?case
  proof (cases "prefix sub (c # s)")
    case True
    then show ?thesis by (auto simp: sublist_Cons_right)
  next
    case False
    then show ?thesis using Cons ne by (auto simp: Let_def sublist_Cons_right)
  qed
qed

text \<open>It answers the position of an occurrence that no earlier occurrence precedes.\<close>

lemma strings_Index_first:
  "(\<forall>i < length p. \<not> prefix sub (drop i (p @ sub @ rest))) \<Longrightarrow>
   strings_Index (p @ sub @ rest) sub = int (length p)"
proof (induction p)
  case Nil
  have "prefix sub (sub @ rest)" by simp
  then show ?case by (cases "sub @ rest") auto
next
  case (Cons a p)
  have "\<not> prefix sub (drop 0 ((a # p) @ sub @ rest))" using Cons.prems by blast
  then have np: "\<not> prefix sub (a # p @ sub @ rest)" by simp
  have "\<forall>i < length p. \<not> prefix sub (drop i (p @ sub @ rest))"
  proof (intro allI impI)
    fix i assume "i < length p"
    then have "Suc i < length (a # p)" by simp
    then have "\<not> prefix sub (drop (Suc i) ((a # p) @ sub @ rest))" using Cons.prems by blast
    then show "\<not> prefix sub (drop i (p @ sub @ rest))" by simp
  qed
  then have "strings_Index (p @ sub @ rest) sub = int (length p)" by (rule Cons.IH)
  then show ?case using np by (simp add: Let_def)
qed

lemma UnFqdn_trailing_dot:
  "UnFqdn name = (if name \<noteq> [] \<and> last name = CHR ''.'' then butlast name else name)"
  by (auto simp: UnFqdn_def Let_def last_conv_nth butlast_conv_take)

text \<open>
  Where the text \<open>.zone\<close> first occurs at the place of the zone suffix,
  \<open>extractRecordName\<close> returns what stands before it.
\<close>

lemma extractRecordName_first_occurrence:
  "(\<forall>i < length p. \<not> prefix (''.'' @ z) (drop i (p @ (''.'' @ z) @ rest))) \<Longrightarrow>
   extractRecordName (p @ ''.'' @ z @ rest) z = p"
  using strings_Index_first [of p "''.'' @ z" rest]
  by (simp add: extractRecordName_def Let_def)

section \<open>Facts about the calls and the two loops\<close>

lemma log_call_simps [simp]:
  "zone_records (log_call k w) = zone_records w"
  "calls (log_call k w) = calls w @ [k]"
  "adds (log_call k w) = (if is_add k then adds w @ [k] else adds w)"
  "removes (log_call k w) = (if is_remove k then removes w @ [k] else removes w)"
  "secret_lookups (log_call k w)
     = (if is_secret_lookup k then secret_lookups w @ [k] else secret_lookups w)"
  by (simp_all add: log_call_def adds_def removes_def secret_lookups_def)

lemma trace_of_records_update [simp]:
  "adds (w\<lparr>zone_records := z\<rparr>) = adds w"
  "removes (w\<lparr>zone_records := z\<rparr>) = removes w"
  "secret_lookups (w\<lparr>zone_records := z\<rparr>) = secret_lookups w"
  by (simp_all add: adds_def removes_def secret_lookups_def)

lemma gotransip_NewClient_frame:
  "gotransip_NewClient E a k w = (r, w1) \<Longrightarrow>
     zone_records w1 = zone_records w \<and> adds w1 = adds w \<and> removes w1 = removes w
     \<and> secret_lookups w1 = secret_lookups w"
  by (auto simp: gotransip_NewClient_def split: option.splits)

lemma NewTransipClient_frame:
  "NewTransipClient E c ch cfg w = (r, w1) \<Longrightarrow>
     zone_records w1 = zone_records w \<and> adds w1 = adds w \<and> removes w1 = removes w"
  by (auto simp: NewTransipClient_def Secrets_Get_def split: if_splits sum.splits option.splits
      dest!: gotransip_NewClient_frame)

text \<open>What \<open>NewTransipClient\<close> returns does not depend on the provider's records.\<close>

lemma NewTransipClient_result_any_world:
  "fst (NewTransipClient E c ch cfg w) = fst (NewTransipClient E c ch cfg v)"
  by (auto simp: NewTransipClient_def Secrets_Get_def gotransip_NewClient_def
      split: if_splits sum.splits option.splits)

lemma GetDNSEntries_frame:
  "GetDNSEntries E cl d w = (r, w2) \<Longrightarrow>
     zone_records w2 = zone_records w \<and> adds w2 = adds w \<and> removes w2 = removes w"
  by (auto simp: GetDNSEntries_def split: option.splits)

lemma GetDNSEntries_ok:
  "GetDNSEntries E cl d w = (Inr xs, w2) \<Longrightarrow>
     xs = zone_records w d \<and> GetDNSEntries_error E d = None"
  by (auto simp: GetDNSEntries_def split: option.splits)

lemma AddDNSEntry_effect:
  "AddDNSEntry E cl d t w = (r, w') \<Longrightarrow>
     r = AddDNSEntry_error E d t \<and> adds w' = adds w @ [CallAddDNSEntry d t]
     \<and> removes w' = removes w
     \<and> zone_records w'
         = (if r = None then (zone_records w)(d := zone_records w d @ [t]) else zone_records w)"
  by (auto simp: AddDNSEntry_def split: option.splits)

lemma RemoveDNSEntry_effect:
  "RemoveDNSEntry E cl d t w = (r, w') \<Longrightarrow>
     r = RemoveDNSEntry_error E d t \<and> removes w' = removes w @ [CallRemoveDNSEntry d t]
     \<and> adds w' = adds w
     \<and> zone_records w'
         = (if r = None then (zone_records w)(d := remove1 t (zone_records w d))
            else zone_records w)"
  by (auto simp: RemoveDNSEntry_def split: option.splits)

lemma Present_loop_mem: "Present_loop xs t = (t \<in> set xs)"
  by (induction xs) auto

lemma CleanUp_loop_no_match:
  "t \<notin> set xs \<Longrightarrow> CleanUp_loop E cl d t xs w = (None, w)"
  by (induction xs) auto

lemma CleanUp_loop_match:
  "t \<in> set xs \<Longrightarrow> CleanUp_loop E cl d t xs w = RemoveDNSEntry E cl d t w"
  by (induction xs) auto

text \<open>Both operations, once the configuration, the client and the list are there.\<close>

lemma Present_steps:
  assumes "loadConfig E (Config ch) = (cfg, None)"
    and "NewTransipClient E c ch cfg w = (Inr cl, w1)"
    and "GetDNSEntries E cl (extractDomainName E (ResolvedZone ch)) w1 = (Inr dnsEntries, w2)"
  shows "Present E c ch w =
           (if NewDNSEntryFromChallenge ch cfg (extractDomainName E (ResolvedZone ch))
                 \<in> set dnsEntries
            then (None, w2)
            else AddDNSEntry E cl (extractDomainName E (ResolvedZone ch))
                   (NewDNSEntryFromChallenge ch cfg (extractDomainName E (ResolvedZone ch))) w2)"
  using assms by (simp add: Present_def Let_def Present_loop_mem)

lemma CleanUp_steps:
  assumes "loadConfig E (Config ch) = (cfg, None)"
    and "NewTransipClient E c ch cfg w = (Inr cl, w1)"
    and "GetDNSEntries E cl (extractDomainName E (ResolvedZone ch)) w1 = (Inr dnsEntries, w2)"
  shows "CleanUp E c ch w =
           (if NewDNSEntryFromChallenge ch cfg (extractDomainName E (ResolvedZone ch))
                 \<in> set dnsEntries
            then RemoveDNSEntry E cl (extractDomainName E (ResolvedZone ch))
                   (NewDNSEntryFromChallenge ch cfg (extractDomainName E (ResolvedZone ch))) w2
            else (None, w2))"
  using assms by (simp add: CleanUp_def Let_def CleanUp_loop_match CleanUp_loop_no_match)

text \<open>The example setting, evaluated.\<close>

lemma example_domain:
  "extractDomainName example_env (ResolvedZone example_request) = ''example.com''"
  by (simp add: extractDomainName_def example_env_def example_request_def UnFqdn_def)

lemma example_loadConfig:
  "loadConfig example_env (Config example_request) = (example_config, None)"
  by (simp add: loadConfig_def example_env_def example_request_def)

lemma example_entry:
  "NewDNSEntryFromChallenge example_request example_config ''example.com'' = example_target"
  by (simp add: NewDNSEntryFromChallenge_def example_request_def example_config_def
      example_target_def extractRecordName_def)

lemma example_client:
  "NewTransipClient example_env example_solver example_request example_config w
     = (Inr (Client ''acme'' ''PEM''),
        log_call (CallNewClient ''acme'' ''PEM'')
          (log_call (CallSecretsGet ''cert-manager'' ''transip-credentials'') w))"
  by (simp add: NewTransipClient_def example_env_def example_request_def example_solver_def
      example_config_def Secrets_Get_def gotransip_NewClient_def)

lemma example_list:
  "GetDNSEntries example_env cl ''example.com'' w
     = (Inr (zone_records w ''example.com''), log_call (CallGetDNSEntries ''example.com'') w)"
  by (simp add: GetDNSEntries_def example_env_def)

lemma list_fetched_steps:
  assumes "list_fetched E c ch w"
  obtains cfg cl w1 w2 where
    "loadConfig E (Config ch) = (cfg, None)"
    "NewTransipClient E c ch cfg w = (Inr cl, w1)"
    "GetDNSEntries E cl (extractDomainName E (ResolvedZone ch)) w1
       = (Inr (zone_records w (extractDomainName E (ResolvedZone ch))), w2)"
    "target_entry E ch = NewDNSEntryFromChallenge ch cfg (extractDomainName E (ResolvedZone ch))"
proof -
  obtain cfg where cfg: "loadConfig E (Config ch) = (cfg, None)"
    using assms by (cases "loadConfig E (Config ch)") (simp add: list_fetched_def)
  obtain cl w1 where cl: "NewTransipClient E c ch cfg w = (Inr cl, w1)"
    using assms cfg
    by (cases "NewTransipClient E c ch cfg w")
       (auto simp: list_fetched_def split: sum.splits)
  have ok: "GetDNSEntries_error E (extractDomainName E (ResolvedZone ch)) = None"
    using assms by (simp add: list_fetched_def)
  have z1: "zone_records w1 = zone_records w"
    using NewTransipClient_frame [OF cl] by simp
  have ls: "GetDNSEntries E cl (extractDomainName E (ResolvedZone ch)) w1
       = (Inr (zone_records w (extractDomainName E (ResolvedZone ch))),
          log_call (CallGetDNSEntries (extractDomainName E (ResolvedZone ch))) w1)"
    using ok z1 by (simp add: GetDNSEntries_def)
  have "target_entry E ch = NewDNSEntryFromChallenge ch cfg (extractDomainName E (ResolvedZone ch))"
    using cfg by (simp add: target_entry_def)
  with cfg cl ls show thesis using that by blast
qed

lemma Present_twice_steps:
  assumes cfg: "loadConfig E (Config ch) = (cfg, None)"
    and cl: "NewTransipClient E c ch cfg w = (Inr cl, w1)"
    and ls: "GetDNSEntries E cl d w1 = (Inr dnsEntries, w2)"
    and d: "d = extractDomainName E (ResolvedZone ch)"
    and t: "t = NewDNSEntryFromChallenge ch cfg d"
    and p1: "Present E c ch w = (r, w')"
    and p2: "Present E c ch w' = (r', w'')"
  shows "dnsEntries = zone_records w d
    \<and> (t \<in> set dnsEntries \<longrightarrow>
          r = None \<and> adds w' = adds w \<and> zone_records w' = zone_records w)
    \<and> (t \<notin> set dnsEntries \<longrightarrow>
          adds w' = adds w @ [CallAddDNSEntry d t] \<and> r = AddDNSEntry_error E d t
          \<and> zone_records w'
              = (if r = None then (zone_records w)(d := dnsEntries @ [t]) else zone_records w))
    \<and> (r = None \<longrightarrow>
          r' = None \<and> adds w'' = adds w' \<and> zone_records w'' = zone_records w'
          \<and> count_list (zone_records w'' d) t = max 1 (count_list dnsEntries t))"
proof -
  have z1: "zone_records w1 = zone_records w" and a1: "adds w1 = adds w"
    using NewTransipClient_frame [OF cl] by simp_all
  have z2: "zone_records w2 = zone_records w" and a2: "adds w2 = adds w"
    using GetDNSEntries_frame [OF ls] z1 a1 by simp_all
  have fetched: "dnsEntries = zone_records w d"
    using GetDNSEntries_ok [OF ls] z1 by simp
  have ok: "GetDNSEntries_error E d = None"
    using GetDNSEntries_ok [OF ls] by simp
  have first: "(r, w') = (if t \<in> set dnsEntries then (None, w2) else AddDNSEntry E cl d t w2)"
    using Present_steps [OF cfg cl ls [unfolded d]] p1 d t by simp
  have hit: "t \<in> set dnsEntries \<Longrightarrow> r = None \<and> adds w' = adds w \<and> zone_records w' = zone_records w"
    using first z2 a2 by simp
  have miss: "adds w' = adds w @ [CallAddDNSEntry d t] \<and> r = AddDNSEntry_error E d t
          \<and> zone_records w'
              = (if r = None then (zone_records w)(d := dnsEntries @ [t]) else zone_records w)"
    if "t \<notin> set dnsEntries"
  proof -
    from that first have "AddDNSEntry E cl d t w2 = (r, w')" by simp
    from AddDNSEntry_effect [OF this] show ?thesis using z2 a2 fetched by simp
  qed
  have again: "r' = None \<and> adds w'' = adds w' \<and> zone_records w'' = zone_records w'
          \<and> count_list (zone_records w'' d) t = max 1 (count_list dnsEntries t)"
    if rn: "r = None"
  proof -
    have in': "t \<in> set (zone_records w' d)"
    proof (cases "t \<in> set dnsEntries")
      case True
      then show ?thesis using hit fetched by simp
    next
      case False
      then show ?thesis using miss rn by simp
    qed
    have cnt: "count_list (zone_records w' d) t = max 1 (count_list dnsEntries t)"
    proof (cases "t \<in> set dnsEntries")
      case True
      then have "count_list dnsEntries t \<noteq> 0" by (simp only: count_list_0_iff simp_thms)
      then have "0 < count_list dnsEntries t" by simp
      then show ?thesis using hit [OF True] fetched by simp
    next
      case False
      then have "count_list dnsEntries t = 0" by simp
      then show ?thesis using miss [OF False] rn by simp
    qed
    obtain v1 where c2: "NewTransipClient E c ch cfg w' = (Inr cl, v1)"
      using NewTransipClient_result_any_world [of E c ch cfg w' w] cl
      by (cases "NewTransipClient E c ch cfg w'") simp
    obtain v2 where l2: "GetDNSEntries E cl d v1 = (Inr (zone_records v1 d), v2)"
      using ok by (simp add: GetDNSEntries_def)
    have zv1: "zone_records v1 = zone_records w'" and av1: "adds v1 = adds w'"
      using NewTransipClient_frame [OF c2] by simp_all
    have zv2: "zone_records v2 = zone_records w'" and av2: "adds v2 = adds w'"
      using GetDNSEntries_frame [OF l2] zv1 av1 by simp_all
    have "Present E c ch w' = (None, v2)"
      using Present_steps [OF cfg c2 l2 [unfolded d]] in' zv1 d t by simp
    with p2 have "r' = None" and "w'' = v2" by simp_all
    then show ?thesis using zv2 av2 cnt by simp
  qed
  show ?thesis using fetched hit miss again by blast
qed

lemma example_fetched:
  "list_fetched example_env example_solver example_request w"
  by (simp add: list_fetched_def example_loadConfig example_client example_domain)
     (simp add: example_env_def)

lemma example_target_entry: "target_entry example_env example_request = example_target"
  by (simp add: target_entry_def example_loadConfig example_domain example_entry)

lemma example_domain_sym:
  "''example.com'' = extractDomainName example_env (ResolvedZone example_request)"
  by (simp add: example_domain)

lemma example_target_sym: "example_target = target_entry example_env example_request"
  by (simp add: example_target_entry)

lemma example_entries_differ:
  "other_value_entry \<noteq> example_target" "other_ttl_entry \<noteq> example_target"
  by (simp_all add: other_value_entry_def other_ttl_entry_def example_target_def)

lemma example_provider_answers:
  "AddDNSEntry_error example_env d e = None" "RemoveDNSEntry_error example_env d e = None"
  by (simp_all add: example_env_def)

lemma example_CleanUp:
  "CleanUp example_env example_solver example_request w
     = CleanUp_loop example_env (Client ''acme'' ''PEM'') ''example.com'' example_target
         (zone_records w ''example.com'')
         (log_call (CallGetDNSEntries ''example.com'')
           (log_call (CallNewClient ''acme'' ''PEM'')
             (log_call (CallSecretsGet ''cert-manager'' ''transip-credentials'') w)))"
  by (simp add: CleanUp_def Let_def example_domain example_loadConfig example_client
      example_list example_entry)

lemma example_Present:
  "Present example_env example_solver example_request w
     = (if example_target \<in> set (zone_records w ''example.com'')
        then (None, log_call (CallGetDNSEntries ''example.com'')
           (log_call (CallNewClient ''acme'' ''PEM'')
             (log_call (CallSecretsGet ''cert-manager'' ''transip-credentials'') w)))
        else AddDNSEntry example_env (Client ''acme'' ''PEM'') ''example.com'' example_target
         (log_call (CallGetDNSEntries ''example.com'')
           (log_call (CallNewClient ''acme'' ''PEM'')
             (log_call (CallSecretsGet ''cert-manager'' ''transip-credentials'') w))))"
  by (simp add: Present_def Let_def example_domain example_loadConfig example_client
      example_list example_entry Present_loop_mem)

section \<open>Record name extraction\<close>

text \<open>
  Claim C3. For a name that ends with \<open>.zone\<close> (and possibly a trailing dot),
  \<open>extractRecordName\<close> is meant to return the name without that suffix. The code
  cuts at the first occurrence of \<open>.zone\<close> instead of at the suffix: for the
  challenge name of the host \<open>example.com.example.com\<close> in the zone
  \<open>example.com\<close> the name ends with \<open>.example.com.\<close>, the relative name is
  \<open>_acme-challenge.example.com\<close>, and the function returns \<open>_acme-challenge\<close>.
\<close>

theorem extractRecordName_cuts_at_first_occurrence:
  "''_acme-challenge.example.com.example.com.''
       = ''_acme-challenge.example.com'' @ ''.'' @ ''example.com'' @ ''.''
   \<and> extractRecordName ''_acme-challenge.example.com.example.com.'' ''example.com''
       = ''_acme-challenge''
   \<and> extractRecordName ''_acme-challenge.example.com.example.com.'' ''example.com''
       \<noteq> ''_acme-challenge.example.com''"
  by (simp add: extractRecordName_def)

text \<open>
  Claim C8. When \<open>.zone\<close> does not occur anywhere in the fully-qualified name,
  \<open>extractRecordName\<close> returns the name itself with only its trailing dot, if it has
  one, removed.
\<close>

theorem extractRecordName_fallback:
  "\<not> (\<exists>pre post. fqdn = pre @ ''.'' @ zone @ post) \<Longrightarrow>
   extractRecordName fqdn zone
     = (if fqdn \<noteq> [] \<and> last fqdn = CHR ''.'' then butlast fqdn else fqdn)"
  unfolding extractRecordName_def Let_def UnFqdn_trailing_dot [symmetric]
  using strings_Index_absent [of fqdn "''.'' @ zone"]
  by (auto simp: sublist_def)

lemma other_zone_does_not_occur:
  "\<not> (\<exists>pre post. ''_acme-challenge.example.com.'' = pre @ ''.'' @ ''example.org'' @ post)"
proof -
  have "strings_Index ''_acme-challenge.example.com.'' (''.'' @ ''example.org'') = - 1" by simp
  then have "\<not> sublist (''.'' @ ''example.org'') ''_acme-challenge.example.com.''"
    using strings_Index_absent by blast
  then show ?thesis unfolding sublist_def append_assoc .
qed

theorem extractRecordName_fallback_witness:
  "\<not> (\<exists>pre post. ''_acme-challenge.example.com.'' = pre @ ''.'' @ ''example.org'' @ post)
   \<and> extractRecordName ''_acme-challenge.example.com.'' ''example.org''
       = ''_acme-challenge.example.com''"
  using other_zone_does_not_occur extractRecordName_fallback [OF other_zone_does_not_occur]
  by simp

section \<open>Present\<close>

text \<open>
  Claim C1. Present is idempotent with respect to the provider's record list. When the
  list fetched for the domain already holds an entry equal to the target entry, Present
  issues no add and returns nil, and the records stay as they were. Otherwise it issues
  exactly one add, of the target entry to the domain, returns what that call returns,
  and on success the domain's list is the old one followed by the target. After a
  successful Present a second Present of the same request, answered by the libraries as
  the first was, returns nil, issues no add and leaves the records alone, so a list that
  did not hold the target holds it once.
\<close>

theorem Present_idempotent:
  assumes fetched: "list_fetched E c ch w"
    and d: "d = extractDomainName E (ResolvedZone ch)"
    and t: "t = target_entry E ch"
    and p1: "Present E c ch w = (r, w')"
    and p2: "Present E c ch w' = (r', w'')"
  shows "(t \<in> set (zone_records w d) \<longrightarrow>
            r = None \<and> adds w' = adds w \<and> zone_records w' = zone_records w)
    \<and> (t \<notin> set (zone_records w d) \<longrightarrow>
          adds w' = adds w @ [CallAddDNSEntry d t] \<and> r = AddDNSEntry_error E d t
          \<and> zone_records w'
              = (if r = None then (zone_records w)(d := zone_records w d @ [t])
                 else zone_records w))
    \<and> (r = None \<longrightarrow>
          r' = None \<and> adds w'' = adds w' \<and> zone_records w'' = zone_records w'
          \<and> count_list (zone_records w'' d) t = max 1 (count_list (zone_records w d) t))"
proof -
  obtain cfg cl w1 w2 where
    s: "loadConfig E (Config ch) = (cfg, None)"
       "NewTransipClient E c ch cfg w = (Inr cl, w1)"
       "GetDNSEntries E cl (extractDomainName E (ResolvedZone ch)) w1
          = (Inr (zone_records w (extractDomainName E (ResolvedZone ch))), w2)"
       "target_entry E ch = NewDNSEntryFromChallenge ch cfg (extractDomainName E (ResolvedZone ch))"
    using list_fetched_steps [OF fetched] by blast
  have ls: "GetDNSEntries E cl d w1 = (Inr (zone_records w d), w2)"
    using s(3) d by simp
  have t': "t = NewDNSEntryFromChallenge ch cfg d"
    using s(4) d t by simp
  show ?thesis
    using Present_twice_steps [OF s(1) s(2) ls d t' p1 p2] by blast
qed

theorem Present_idempotent_witness:
  "list_fetched example_env example_solver example_request example_start
   \<and> example_target \<notin> set (zone_records example_start ''example.com'')
   \<and> fst (Present example_env example_solver example_request example_start) = None
   \<and> adds example_presented = [CallAddDNSEntry ''example.com'' example_target]
   \<and> zone_records example_presented ''example.com'' = [other_value_entry, example_target]
   \<and> fst (Present example_env example_solver example_request example_presented) = None
   \<and> adds example_presented_twice = [CallAddDNSEntry ''example.com'' example_target]
   \<and> zone_records example_presented_twice ''example.com'' = [other_value_entry, example_target]
   \<and> count_list (zone_records example_presented_twice ''example.com'') example_target = 1"
proof -
  have d: "''example.com'' = extractDomainName example_env (ResolvedZone example_request)"
    by (simp add: example_domain)
  have t: "example_target = target_entry example_env example_request"
    by (simp add: example_target_entry)
  have p1: "Present example_env example_solver example_request example_start
      = (fst (Present example_env example_solver example_request example_start), example_presented)"
    by (simp add: example_presented_def)
  have p2: "Present example_env example_solver example_request example_presented
      = (fst (Present example_env example_solver example_request example_presented),
         example_presented_twice)"
    by (simp add: example_presented_twice_def)
  have start: "zone_records example_start ''example.com'' = [other_value_entry]"
    "adds example_start = []"
    by (simp_all add: example_start_def example_world_def adds_def)
  have nin: "example_target \<notin> set (zone_records example_start ''example.com'')"
    by (simp add: start example_target_def other_value_entry_def)
  have noerr: "AddDNSEntry_error example_env ''example.com'' example_target = None"
    by (simp add: example_env_def)
  show ?thesis
    using Present_idempotent [OF example_fetched d t p1 p2] nin noerr start example_fetched
    by simp
qed

section \<open>CleanUp\<close>

lemma DNSEntry_eq_iff:
  "(s = t) = (Name s = Name t \<and> Expire s = Expire t \<and> Type s = Type t \<and> Content s = Content t)"
  for s t :: DNSEntry
  by auto

lemma filter_remove1_other: "filter (\<lambda>e. e \<noteq> t) (remove1 t xs) = filter (\<lambda>e. e \<noteq> t) xs"
  by (induction xs) auto

lemma count_list_remove1_other: "e \<noteq> t \<Longrightarrow> count_list (remove1 t xs) e = count_list xs e"
  by (induction xs) auto

text \<open>Every way a call of CleanUp can end.\<close>

lemma CleanUp_outcome:
  assumes run: "CleanUp E c ch w = (r, w')"
    and d: "d = extractDomainName E (ResolvedZone ch)"
    and t: "t = target_entry E ch"
  shows "adds w' = adds w \<and>
    ((zone_records w' = zone_records w \<and> removes w' = removes w
       \<and> (list_fetched E c ch w \<longrightarrow> t \<notin> set (zone_records w d) \<and> r = None))
     \<or> (list_fetched E c ch w \<and> t \<in> set (zone_records w d)
         \<and> removes w' = removes w @ [CallRemoveDNSEntry d t]
         \<and> r = RemoveDNSEntry_error E d t
         \<and> zone_records w'
             = (if r = None then (zone_records w)(d := remove1 t (zone_records w d))
                else zone_records w)))"
proof (cases "list_fetched E c ch w")
  case True
  obtain cfg cl w1 w2 where
    s: "loadConfig E (Config ch) = (cfg, None)"
       "NewTransipClient E c ch cfg w = (Inr cl, w1)"
       "GetDNSEntries E cl (extractDomainName E (ResolvedZone ch)) w1
          = (Inr (zone_records w (extractDomainName E (ResolvedZone ch))), w2)"
       "target_entry E ch = NewDNSEntryFromChallenge ch cfg (extractDomainName E (ResolvedZone ch))"
    using list_fetched_steps [OF True] by blast
  have f1: "zone_records w1 = zone_records w \<and> adds w1 = adds w \<and> removes w1 = removes w"
    using NewTransipClient_frame [OF s(2)] .
  have f2: "zone_records w2 = zone_records w \<and> adds w2 = adds w \<and> removes w2 = removes w"
    using GetDNSEntries_frame [OF s(3)] f1 by simp
  have run': "(r, w') = (if t \<in> set (zone_records w d) then RemoveDNSEntry E cl d t w2 else (None, w2))"
    using CleanUp_steps [OF s(1) s(2) s(3)] run d t s(4) by simp
  show ?thesis
  proof (cases "t \<in> set (zone_records w d)")
    case hit: True
    then have "RemoveDNSEntry E cl d t w2 = (r, w')" using run' by simp
    from RemoveDNSEntry_effect [OF this] show ?thesis using f2 hit True by simp
  next
    case False
    then show ?thesis using run' f2 by simp
  qed
next
  case False
  have "zone_records w' = zone_records w \<and> removes w' = removes w \<and> adds w' = adds w"
  proof (cases "loadConfig E (Config ch)")
    case (Pair cfg e)
    show ?thesis
    proof (cases e)
      case (Some err)
      then show ?thesis using run Pair by (simp add: CleanUp_def)
    next
      case None
      obtain rc w1 where cl: "NewTransipClient E c ch cfg w = (rc, w1)"
        by (cases "NewTransipClient E c ch cfg w")
      have f1: "zone_records w1 = zone_records w \<and> adds w1 = adds w \<and> removes w1 = removes w"
        using NewTransipClient_frame [OF cl] .
      show ?thesis
      proof (cases rc)
        case (Inl err)
        then show ?thesis using run Pair None cl f1 by (simp add: CleanUp_def)
      next
        case (Inr k)
        obtain rl w2 where ls: "GetDNSEntries E k (extractDomainName E (ResolvedZone ch)) w1 = (rl, w2)"
          by (cases "GetDNSEntries E k (extractDomainName E (ResolvedZone ch)) w1")
        have f2: "zone_records w2 = zone_records w \<and> adds w2 = adds w \<and> removes w2 = removes w"
          using GetDNSEntries_frame [OF ls] f1 by simp
        show ?thesis
        proof (cases rl)
          case (Inl err)
          then show ?thesis using run Pair None cl Inr ls f2 by (simp add: CleanUp_def)
        next
          case ok: (Inr xs)
          have "GetDNSEntries_error E (extractDomainName E (ResolvedZone ch)) = None"
            using GetDNSEntries_ok ls ok by blast
          then have "list_fetched E c ch w"
            using Pair None cl Inr by (simp add: list_fetched_def)
          with False show ?thesis by simp
        qed
      qed
    qed
  qed
  with False show ?thesis by simp
qed

text \<open>
  Claim C2. CleanUp removes only a record whose four fields equal the target entry built
  from the request. Whatever the call returns, in every domain the records other than
  the target are the same, in the same order and number, after the call as before it;
  in particular a record with the target's name and another value stays. Lists of other
  domains are untouched, the list of the resolved domain is either unchanged or has lost
  one copy of the target, the only remove the call can issue names the target, and no
  add is issued.
\<close>

theorem CleanUp_removes_only_the_target:
  assumes run: "CleanUp E c ch w = (r, w')"
    and d: "d = extractDomainName E (ResolvedZone ch)"
    and t: "t = target_entry E ch"
  shows "(\<forall>d'. filter (\<lambda>e. e \<noteq> t) (zone_records w' d') = filter (\<lambda>e. e \<noteq> t) (zone_records w d'))
    \<and> (\<forall>d' e. e \<noteq> t \<longrightarrow> count_list (zone_records w' d') e = count_list (zone_records w d') e)
    \<and> (\<forall>d' e. Name e = Name t \<and> Content e \<noteq> Content t \<longrightarrow>
          count_list (zone_records w' d') e = count_list (zone_records w d') e)
    \<and> (\<forall>d'. d' \<noteq> d \<longrightarrow> zone_records w' d' = zone_records w d')
    \<and> (zone_records w' d = zone_records w d \<or> zone_records w' d = remove1 t (zone_records w d))
    \<and> set (removes w') \<subseteq> set (removes w) \<union> {CallRemoveDNSEntry d t}
    \<and> adds w' = adds w"
proof -
  note out = CleanUp_outcome [OF run d t]
  have z: "zone_records w' = zone_records w
            \<or> zone_records w' = (zone_records w)(d := remove1 t (zone_records w d))"
    using out by (auto split: if_splits)
  have a: "\<forall>d'. filter (\<lambda>e. e \<noteq> t) (zone_records w' d') = filter (\<lambda>e. e \<noteq> t) (zone_records w d')"
    using z by (auto simp: filter_remove1_other)
  have b: "\<forall>d' e. e \<noteq> t \<longrightarrow> count_list (zone_records w' d') e = count_list (zone_records w d') e"
    using z by (auto simp: count_list_remove1_other)
  have c: "\<forall>d' e. Name e = Name t \<and> Content e \<noteq> Content t \<longrightarrow>
          count_list (zone_records w' d') e = count_list (zone_records w d') e"
    using b by auto
  have e: "\<forall>d'. d' \<noteq> d \<longrightarrow> zone_records w' d' = zone_records w d'"
    using z by auto
  have f: "zone_records w' d = zone_records w d \<or> zone_records w' d = remove1 t (zone_records w d)"
    using z by auto
  have g: "set (removes w') \<subseteq> set (removes w) \<union> {CallRemoveDNSEntry d t}"
    using out by auto
  show ?thesis using a b c e f g out by blast
qed

theorem CleanUp_removes_only_the_target_witness:
  "Name other_value_entry = Name example_target
   \<and> Content other_value_entry \<noteq> Content example_target
   \<and> zone_records example_duplicates ''example.com''
       = [example_target, other_value_entry, example_target]
   \<and> zone_records example_cleaned ''example.com'' = [other_value_entry, example_target]
   \<and> count_list (zone_records example_cleaned ''example.com'') other_value_entry = 1
   \<and> set (removes example_cleaned) \<subseteq> {CallRemoveDNSEntry ''example.com'' example_target}
   \<and> adds example_cleaned = []"
proof -
  have run: "CleanUp example_env example_solver example_request example_duplicates
      = (fst (CleanUp example_env example_solver example_request example_duplicates),
         example_cleaned)"
    by (simp add: example_cleaned_def)
  have start: "zone_records example_duplicates ''example.com''
       = [example_target, other_value_entry, example_target]"
     "adds example_duplicates = []" "removes example_duplicates = []"
    by (simp_all add: example_duplicates_def example_world_def adds_def removes_def)
  have nm: "Name other_value_entry = Name example_target"
     "Content other_value_entry \<noteq> Content example_target"
    by (simp_all add: other_value_entry_def example_target_def)
  note main = CleanUp_removes_only_the_target [OF run example_domain_sym example_target_sym]
  have cnt: "count_list (zone_records example_cleaned ''example.com'') other_value_entry = 1"
    using main nm start example_entries_differ by simp
  have ev: "zone_records example_cleaned ''example.com'' = [other_value_entry, example_target]"
    by (simp add: example_cleaned_def example_CleanUp start RemoveDNSEntry_def
        example_provider_answers example_entries_differ)
  show ?thesis using main nm start cnt ev by simp
qed

text \<open>
  Claim C10. CleanUp issues at most one remove per invocation. When the list is fetched
  and holds the target, it issues exactly one remove, of the target, however many
  copies the list holds and whatever follows the first one, and returns what that call
  returns; when the list is fetched and holds no entry equal to the target, it issues no
  remove, changes nothing and returns nil.
\<close>

theorem CleanUp_at_most_one_remove:
  assumes run: "CleanUp E c ch w = (r, w')"
    and d: "d = extractDomainName E (ResolvedZone ch)"
    and t: "t = target_entry E ch"
  shows "length (removes w') \<le> length (removes w) + 1
    \<and> (list_fetched E c ch w \<and> t \<in> set (zone_records w d) \<longrightarrow>
          removes w' = removes w @ [CallRemoveDNSEntry d t] \<and> r = RemoveDNSEntry_error E d t)
    \<and> (list_fetched E c ch w \<and> t \<notin> set (zone_records w d) \<longrightarrow>
          removes w' = removes w \<and> zone_records w' = zone_records w \<and> r = None)
    \<and> (\<not> list_fetched E c ch w \<longrightarrow> removes w' = removes w)
    \<and> (\<forall>cl xs ys v. CleanUp_loop E cl d t (xs @ t # ys) v = RemoveDNSEntry E cl d t v)"
proof -
  note out = CleanUp_outcome [OF run d t]
  have a: "length (removes w') \<le> length (removes w) + 1" using out by auto
  have b: "list_fetched E c ch w \<and> t \<in> set (zone_records w d) \<longrightarrow>
          removes w' = removes w @ [CallRemoveDNSEntry d t] \<and> r = RemoveDNSEntry_error E d t"
    using out by auto
  have c: "list_fetched E c ch w \<and> t \<notin> set (zone_records w d) \<longrightarrow>
          removes w' = removes w \<and> zone_records w' = zone_records w \<and> r = None"
    using out by auto
  have e: "\<not> list_fetched E c ch w \<longrightarrow> removes w' = removes w"
    using out by auto
  have f: "\<forall>cl xs ys v. CleanUp_loop E cl d t (xs @ t # ys) v = RemoveDNSEntry E cl d t v"
    by (simp add: CleanUp_loop_match)
  show ?thesis using a b c e f by blast
qed

theorem CleanUp_at_most_one_remove_witness:
  "list_fetched example_env example_solver example_request example_duplicates
   \<and> example_target \<in> set (zone_records example_duplicates ''example.com'')
   \<and> count_list (zone_records example_duplicates ''example.com'') example_target = 2
   \<and> removes example_cleaned = [CallRemoveDNSEntry ''example.com'' example_target]
   \<and> length (removes example_cleaned) \<le> 1
   \<and> list_fetched example_env example_solver example_request example_start
   \<and> example_target \<notin> set (zone_records example_start ''example.com'')
   \<and> fst (CleanUp example_env example_solver example_request example_start) = None
   \<and> removes example_untouched = []
   \<and> zone_records example_untouched = zone_records example_start"
proof -
  have run1: "CleanUp example_env example_solver example_request example_duplicates
      = (fst (CleanUp example_env example_solver example_request example_duplicates),
         example_cleaned)"
    by (simp add: example_cleaned_def)
  have run2: "CleanUp example_env example_solver example_request example_start
      = (fst (CleanUp example_env example_solver example_request example_start),
         example_untouched)"
    by (simp add: example_untouched_def)
  have s1: "zone_records example_duplicates ''example.com''
       = [example_target, other_value_entry, example_target]"
     "removes example_duplicates = []"
    by (simp_all add: example_duplicates_def example_world_def removes_def)
  have s2: "zone_records example_start ''example.com'' = [other_value_entry]"
     "removes example_start = []"
    by (simp_all add: example_start_def example_world_def removes_def)
  have e: "example_target \<noteq> other_value_entry"
    using example_entries_differ by simp
  show ?thesis
    using CleanUp_at_most_one_remove [OF run1 example_domain_sym example_target_sym]
      CleanUp_at_most_one_remove [OF run2 example_domain_sym example_target_sym]
      example_fetched s1 s2 e
    by simp
qed

section \<open>Failures\<close>

lemma Present_config_error:
  "loadConfig E (Config ch) = (cfg, Some err) \<Longrightarrow> Present E c ch w = (Some err, w)"
  by (simp add: Present_def)

lemma CleanUp_config_error:
  "loadConfig E (Config ch) = (cfg, Some err) \<Longrightarrow> CleanUp E c ch w = (Some err, w)"
  by (simp add: CleanUp_def)

lemma Present_client_error:
  "loadConfig E (Config ch) = (cfg, None) \<Longrightarrow>
   NewTransipClient E c ch cfg w = (Inl err, w1) \<Longrightarrow> Present E c ch w = (Some err, w1)"
  by (simp add: Present_def)

lemma CleanUp_client_error:
  "loadConfig E (Config ch) = (cfg, None) \<Longrightarrow>
   NewTransipClient E c ch cfg w = (Inl err, w1) \<Longrightarrow> CleanUp E c ch w = (Some err, w1)"
  by (simp add: CleanUp_def)

lemma Present_list_error:
  "loadConfig E (Config ch) = (cfg, None) \<Longrightarrow>
   NewTransipClient E c ch cfg w = (Inr cl, w1) \<Longrightarrow>
   GetDNSEntries E cl (extractDomainName E (ResolvedZone ch)) w1 = (Inl err, w2) \<Longrightarrow>
   Present E c ch w = (Some err, w2)"
  by (simp add: Present_def)

lemma CleanUp_list_error:
  "loadConfig E (Config ch) = (cfg, None) \<Longrightarrow>
   NewTransipClient E c ch cfg w = (Inr cl, w1) \<Longrightarrow>
   GetDNSEntries E cl (extractDomainName E (ResolvedZone ch)) w1 = (Inl err, w2) \<Longrightarrow>
   CleanUp E c ch w = (Some err, w2)"
  by (simp add: CleanUp_def)

text \<open>
  Claim C7. Failures are propagated without modifying the provider's state. If decoding
  the configuration fails, Present and CleanUp return that error and the world is as it
  was (no call was made). If building the client fails, or if listing the domain's
  entries fails, both return that error, no add and no remove has been issued, and the
  provider's records are unchanged.
\<close>

theorem failures_propagate_without_changes:
  "(loadConfig E (Config ch) = (cfg, Some err) \<longrightarrow>
      Present E c ch w = (Some err, w) \<and> CleanUp E c ch w = (Some err, w))
   \<and> (loadConfig E (Config ch) = (cfg, None)
        \<and> NewTransipClient E c ch cfg w = (Inl err, w1) \<longrightarrow>
      Present E c ch w = (Some err, w1) \<and> CleanUp E c ch w = (Some err, w1)
      \<and> adds w1 = adds w \<and> removes w1 = removes w \<and> zone_records w1 = zone_records w)
   \<and> (loadConfig E (Config ch) = (cfg, None)
        \<and> NewTransipClient E c ch cfg w = (Inr cl, w1)
        \<and> GetDNSEntries E cl (extractDomainName E (ResolvedZone ch)) w1 = (Inl err, w2) \<longrightarrow>
      Present E c ch w = (Some err, w2) \<and> CleanUp E c ch w = (Some err, w2)
      \<and> adds w2 = adds w \<and> removes w2 = removes w \<and> zone_records w2 = zone_records w)"
proof (intro conjI impI)
  assume "loadConfig E (Config ch) = (cfg, Some err)"
  then show "Present E c ch w = (Some err, w)" "CleanUp E c ch w = (Some err, w)"
    by (simp_all add: Present_config_error CleanUp_config_error)
next
  assume a: "loadConfig E (Config ch) = (cfg, None)
        \<and> NewTransipClient E c ch cfg w = (Inl err, w1)"
  then show "Present E c ch w = (Some err, w1)" "CleanUp E c ch w = (Some err, w1)"
    by (simp_all add: Present_client_error CleanUp_client_error)
  from a have "NewTransipClient E c ch cfg w = (Inl err, w1)" by simp
  from NewTransipClient_frame [OF this]
  show "adds w1 = adds w" "removes w1 = removes w" "zone_records w1 = zone_records w"
    by simp_all
next
  assume a: "loadConfig E (Config ch) = (cfg, None)
        \<and> NewTransipClient E c ch cfg w = (Inr cl, w1)
        \<and> GetDNSEntries E cl (extractDomainName E (ResolvedZone ch)) w1 = (Inl err, w2)"
  then show "Present E c ch w = (Some err, w2)" "CleanUp E c ch w = (Some err, w2)"
    by (simp_all add: Present_list_error CleanUp_list_error)
  from a have c: "NewTransipClient E c ch cfg w = (Inr cl, w1)"
    and l: "GetDNSEntries E cl (extractDomainName E (ResolvedZone ch)) w1 = (Inl err, w2)"
    by simp_all
  from NewTransipClient_frame [OF c] GetDNSEntries_frame [OF l]
  show "adds w2 = adds w" "removes w2 = removes w" "zone_records w2 = zone_records w"
    by simp_all
qed

lemma undecodable_loadConfig:
  "loadConfig example_env (Config undecodable_request)
     = (zero_config, Some (ErrorDecodingSolverConfig (ExternalError ''invalid character'')))"
  by (simp add: loadConfig_def undecodable_request_def example_request_def example_env_def
      example_raw_def)

lemma other_namespace_loadConfig:
  "loadConfig example_env (Config other_namespace_request) = (example_config, None)"
  by (simp add: loadConfig_def other_namespace_request_def example_request_def example_env_def)

lemma other_namespace_client:
  "NewTransipClient example_env example_solver other_namespace_request example_config w
     = (Inl (ExternalError ''secret not found''),
        log_call (CallSecretsGet ''default'' ''transip-credentials'') w)"
  by (simp add: NewTransipClient_def other_namespace_request_def example_request_def
      example_solver_def example_config_def Secrets_Get_def)

lemma failing_list_loadConfig:
  "loadConfig failing_list_env (Config example_request) = (example_config, None)"
  by (simp add: loadConfig_def failing_list_env_def example_request_def example_env_def)

lemma failing_list_client:
  "NewTransipClient failing_list_env example_solver example_request example_config w
     = (Inr (Client ''acme'' ''PEM''),
        log_call (CallNewClient ''acme'' ''PEM'')
          (log_call (CallSecretsGet ''cert-manager'' ''transip-credentials'') w))"
  by (simp add: NewTransipClient_def failing_list_env_def example_env_def example_request_def
      example_solver_def example_config_def Secrets_Get_def gotransip_NewClient_def)

lemma failing_list_list:
  "GetDNSEntries failing_list_env cl (extractDomainName failing_list_env (ResolvedZone example_request)) w
     = (Inl (ExternalError ''service unavailable''),
        log_call (CallGetDNSEntries ''example.com'') w)"
  by (simp add: GetDNSEntries_def failing_list_env_def example_env_def extractDomainName_def
      example_request_def UnFqdn_def)

theorem failures_propagate_without_changes_witness:
  "loadConfig example_env (Config undecodable_request)
     = (zero_config, Some (ErrorDecodingSolverConfig (ExternalError ''invalid character'')))
   \<and> Present example_env example_solver undecodable_request example_start
       = (Some (ErrorDecodingSolverConfig (ExternalError ''invalid character'')), example_start)
   \<and> CleanUp example_env example_solver undecodable_request example_start
       = (Some (ErrorDecodingSolverConfig (ExternalError ''invalid character'')), example_start)
   \<and> fst (NewTransipClient example_env example_solver other_namespace_request example_config
            example_start) = Inl (ExternalError ''secret not found'')
   \<and> fst (Present example_env example_solver other_namespace_request example_start)
       = Some (ExternalError ''secret not found'')
   \<and> fst (CleanUp example_env example_solver other_namespace_request example_start)
       = Some (ExternalError ''secret not found'')
   \<and> adds (snd (Present example_env example_solver other_namespace_request example_start)) = []
   \<and> removes (snd (CleanUp example_env example_solver other_namespace_request example_start)) = []
   \<and> fst (Present failing_list_env example_solver example_request example_start)
       = Some (ExternalError ''service unavailable'')
   \<and> fst (CleanUp failing_list_env example_solver example_request example_start)
       = Some (ExternalError ''service unavailable'')
   \<and> adds (snd (Present failing_list_env example_solver example_request example_start)) = []
   \<and> removes (snd (CleanUp failing_list_env example_solver example_request example_start)) = []
   \<and> zone_records (snd (Present failing_list_env example_solver example_request example_start))
       = zone_records example_start
   \<and> zone_records (snd (CleanUp failing_list_env example_solver example_request example_start))
       = zone_records example_start"
proof -
  let ?e1 = "ErrorDecodingSolverConfig (ExternalError ''invalid character'')"
  let ?w1 = "log_call (CallSecretsGet ''default'' ''transip-credentials'') example_start"
  let ?v1 = "log_call (CallNewClient ''acme'' ''PEM'')
          (log_call (CallSecretsGet ''cert-manager'' ''transip-credentials'') example_start)"
  let ?v2 = "log_call (CallGetDNSEntries ''example.com'') ?v1"
  have s: "adds example_start = []" "removes example_start = []"
    by (simp_all add: example_start_def example_world_def adds_def removes_def)
  have a: "Present example_env example_solver undecodable_request example_start
             = (Some ?e1, example_start)
       \<and> CleanUp example_env example_solver undecodable_request example_start
             = (Some ?e1, example_start)"
    using failures_propagate_without_changes [of example_env undecodable_request zero_config
        ?e1 example_solver example_start]
      undecodable_loadConfig
    by blast
  have b: "Present example_env example_solver other_namespace_request example_start
             = (Some (ExternalError ''secret not found''), ?w1)
       \<and> CleanUp example_env example_solver other_namespace_request example_start
             = (Some (ExternalError ''secret not found''), ?w1)
       \<and> adds ?w1 = adds example_start \<and> removes ?w1 = removes example_start
       \<and> zone_records ?w1 = zone_records example_start"
    using failures_propagate_without_changes [of example_env other_namespace_request
        example_config "ExternalError ''secret not found''" example_solver example_start ?w1]
      other_namespace_loadConfig other_namespace_client [of example_start]
    by blast
  have c: "Present failing_list_env example_solver example_request example_start
             = (Some (ExternalError ''service unavailable''), ?v2)
       \<and> CleanUp failing_list_env example_solver example_request example_start
             = (Some (ExternalError ''service unavailable''), ?v2)
       \<and> adds ?v2 = adds example_start \<and> removes ?v2 = removes example_start
       \<and> zone_records ?v2 = zone_records example_start"
    using failures_propagate_without_changes [of failing_list_env example_request
        example_config "ExternalError ''service unavailable''" example_solver example_start
        ?v1 "Client ''acme'' ''PEM''" ?v2]
      failing_list_loadConfig failing_list_client [of example_start]
      failing_list_list [of "Client ''acme'' ''PEM''" ?v1]
    by blast
  show ?thesis
    using a b c s undecodable_loadConfig other_namespace_client [of example_start]
    by simp
qed

section \<open>The match predicate\<close>

lemma Present_outcome:
  assumes run: "Present E c ch w = (r, w')"
    and f: "list_fetched E c ch w"
    and d: "d = extractDomainName E (ResolvedZone ch)"
    and t: "t = target_entry E ch"
  shows "removes w' = removes w \<and>
    (if t \<in> set (zone_records w d)
     then r = None \<and> adds w' = adds w \<and> zone_records w' = zone_records w
     else adds w' = adds w @ [CallAddDNSEntry d t] \<and> r = AddDNSEntry_error E d t
          \<and> zone_records w'
              = (if r = None then (zone_records w)(d := zone_records w d @ [t])
                 else zone_records w))"
proof -
  obtain cfg cl w1 w2 where
    s: "loadConfig E (Config ch) = (cfg, None)"
       "NewTransipClient E c ch cfg w = (Inr cl, w1)"
       "GetDNSEntries E cl (extractDomainName E (ResolvedZone ch)) w1
          = (Inr (zone_records w (extractDomainName E (ResolvedZone ch))), w2)"
       "target_entry E ch = NewDNSEntryFromChallenge ch cfg (extractDomainName E (ResolvedZone ch))"
    using list_fetched_steps [OF f] by blast
  have f1: "zone_records w1 = zone_records w \<and> adds w1 = adds w \<and> removes w1 = removes w"
    using NewTransipClient_frame [OF s(2)] .
  have f2: "zone_records w2 = zone_records w \<and> adds w2 = adds w \<and> removes w2 = removes w"
    using GetDNSEntries_frame [OF s(3)] f1 by simp
  have run': "(r, w') = (if t \<in> set (zone_records w d) then (None, w2) else AddDNSEntry E cl d t w2)"
    using Present_steps [OF s(1) s(2) s(3)] run d t s(4) by simp
  show ?thesis
  proof (cases "t \<in> set (zone_records w d)")
    case True
    then show ?thesis using run' f2 by simp
  next
    case False
    then have "AddDNSEntry E cl d t w2 = (r, w')" using run' by simp
    from AddDNSEntry_effect [OF this] show ?thesis using f2 False by simp
  qed
qed

text \<open>
  Claim C6. The match predicate of both loops is equality of all four fields of the DNS
  entry. The loop of Present takes its early return, and the loop of CleanUp calls the
  remove, exactly when some entry of the list agrees with the target in name, TTL, type
  and value. When every fetched entry differs from the target in at least one field (for
  instance only in the TTL), Present issues the add of the target and on success the
  target stands after the old entries, and CleanUp issues no remove, leaves the records
  as they were and returns nil.
\<close>

theorem match_is_equality_of_all_four_fields:
  assumes d: "d = extractDomainName E (ResolvedZone ch)"
    and t: "t = target_entry E ch"
  shows "Present_loop xs t
           = (\<exists>s \<in> set xs. Name s = Name t \<and> Expire s = Expire t \<and> Type s = Type t
                \<and> Content s = Content t)
    \<and> CleanUp_loop E cl d t xs v
        = (if \<exists>s \<in> set xs. Name s = Name t \<and> Expire s = Expire t \<and> Type s = Type t
                \<and> Content s = Content t
           then RemoveDNSEntry E cl d t v else (None, v))
    \<and> (list_fetched E c ch w
        \<and> (\<forall>s \<in> set (zone_records w d). Name s \<noteq> Name t \<or> Expire s \<noteq> Expire t
              \<or> Type s \<noteq> Type t \<or> Content s \<noteq> Content t) \<longrightarrow>
          adds (snd (Present E c ch w)) = adds w @ [CallAddDNSEntry d t]
          \<and> (fst (Present E c ch w) = None \<longrightarrow>
                zone_records (snd (Present E c ch w)) d = zone_records w d @ [t])
          \<and> fst (CleanUp E c ch w) = None
          \<and> removes (snd (CleanUp E c ch w)) = removes w
          \<and> zone_records (snd (CleanUp E c ch w)) = zone_records w)"
proof -
  have mem: "(\<exists>s \<in> set ys. Name s = Name t \<and> Expire s = Expire t \<and> Type s = Type t
                \<and> Content s = Content t) = (t \<in> set ys)" for ys
  proof
    assume "\<exists>s \<in> set ys. Name s = Name t \<and> Expire s = Expire t \<and> Type s = Type t
                \<and> Content s = Content t"
    then obtain s where "s \<in> set ys" and "Name s = Name t \<and> Expire s = Expire t
        \<and> Type s = Type t \<and> Content s = Content t"
      by blast
    then show "t \<in> set ys" by (simp add: DNSEntry_eq_iff [of s t, symmetric])
  next
    assume "t \<in> set ys"
    then show "\<exists>s \<in> set ys. Name s = Name t \<and> Expire s = Expire t \<and> Type s = Type t
                \<and> Content s = Content t"
      by blast
  qed
  have a: "Present_loop xs t
           = (\<exists>s \<in> set xs. Name s = Name t \<and> Expire s = Expire t \<and> Type s = Type t
                \<and> Content s = Content t)"
    by (simp only: mem Present_loop_mem)
  have b: "CleanUp_loop E cl d t xs v
        = (if \<exists>s \<in> set xs. Name s = Name t \<and> Expire s = Expire t \<and> Type s = Type t
                \<and> Content s = Content t
           then RemoveDNSEntry E cl d t v else (None, v))"
    by (simp only: mem) (simp add: CleanUp_loop_match CleanUp_loop_no_match)
  have c: "adds (snd (Present E c ch w)) = adds w @ [CallAddDNSEntry d t]
          \<and> (fst (Present E c ch w) = None \<longrightarrow>
                zone_records (snd (Present E c ch w)) d = zone_records w d @ [t])
          \<and> fst (CleanUp E c ch w) = None
          \<and> removes (snd (CleanUp E c ch w)) = removes w
          \<and> zone_records (snd (CleanUp E c ch w)) = zone_records w"
    if f: "list_fetched E c ch w"
      and n: "\<forall>s \<in> set (zone_records w d). Name s \<noteq> Name t \<or> Expire s \<noteq> Expire t
              \<or> Type s \<noteq> Type t \<or> Content s \<noteq> Content t"
  proof -
    have nin: "t \<notin> set (zone_records w d)" using n by blast
    have p: "Present E c ch w = (fst (Present E c ch w), snd (Present E c ch w))" by simp
    have q: "CleanUp E c ch w = (fst (CleanUp E c ch w), snd (CleanUp E c ch w))" by simp
    have pres: "adds (snd (Present E c ch w)) = adds w @ [CallAddDNSEntry d t]
        \<and> fst (Present E c ch w) = AddDNSEntry_error E d t
        \<and> zone_records (snd (Present E c ch w))
              = (if fst (Present E c ch w) = None
                 then (zone_records w)(d := zone_records w d @ [t]) else zone_records w)"
      using Present_outcome [OF p f d t] nin by simp
    have clean: "zone_records (snd (CleanUp E c ch w)) = zone_records w
        \<and> removes (snd (CleanUp E c ch w)) = removes w \<and> fst (CleanUp E c ch w) = None"
      using CleanUp_outcome [OF q d t] nin f by blast
    show ?thesis using pres clean by simp
  qed
  show ?thesis using a b c by blast
qed

theorem match_is_equality_of_all_four_fields_witness:
  "list_fetched example_env example_solver example_request example_other_ttl
   \<and> zone_records example_other_ttl ''example.com'' = [other_ttl_entry]
   \<and> Name other_ttl_entry = Name example_target
   \<and> Type other_ttl_entry = Type example_target
   \<and> Content other_ttl_entry = Content example_target
   \<and> Expire other_ttl_entry \<noteq> Expire example_target
   \<and> \<not> Present_loop [other_ttl_entry] example_target
   \<and> adds (snd (Present example_env example_solver example_request example_other_ttl))
       = [CallAddDNSEntry ''example.com'' example_target]
   \<and> fst (Present example_env example_solver example_request example_other_ttl) = None
   \<and> zone_records (snd (Present example_env example_solver example_request example_other_ttl))
         ''example.com'' = [other_ttl_entry, example_target]
   \<and> fst (CleanUp example_env example_solver example_request example_other_ttl) = None
   \<and> removes (snd (CleanUp example_env example_solver example_request example_other_ttl)) = []
   \<and> zone_records (snd (CleanUp example_env example_solver example_request example_other_ttl))
         ''example.com'' = [other_ttl_entry]"
proof -
  note main = match_is_equality_of_all_four_fields [OF example_domain_sym example_target_sym,
      of "[other_ttl_entry]" "Client ''acme'' ''PEM''" example_other_ttl example_solver
         example_other_ttl]
  have s: "zone_records example_other_ttl ''example.com'' = [other_ttl_entry]"
    "adds example_other_ttl = []" "removes example_other_ttl = []"
    by (simp_all add: example_other_ttl_def example_world_def adds_def removes_def)
  have f: "Name other_ttl_entry = Name example_target"
    "Type other_ttl_entry = Type example_target"
    "Content other_ttl_entry = Content example_target"
    "Expire other_ttl_entry \<noteq> Expire example_target"
    by (simp_all add: other_ttl_entry_def example_target_def)
  have differs: "\<forall>s \<in> set (zone_records example_other_ttl ''example.com'').
      Name s \<noteq> Name example_target \<or> Expire s \<noteq> Expire example_target
      \<or> Type s \<noteq> Type example_target \<or> Content s \<noteq> Content example_target"
    using s f by simp
  have loop: "\<not> Present_loop [other_ttl_entry] example_target"
    using main f by simp
  have eff: "adds (snd (Present example_env example_solver example_request example_other_ttl))
         = adds example_other_ttl @ [CallAddDNSEntry ''example.com'' example_target]
     \<and> (fst (Present example_env example_solver example_request example_other_ttl) = None \<longrightarrow>
          zone_records (snd (Present example_env example_solver example_request example_other_ttl))
            ''example.com'' = zone_records example_other_ttl ''example.com'' @ [example_target])
     \<and> fst (CleanUp example_env example_solver example_request example_other_ttl) = None
     \<and> removes (snd (CleanUp example_env example_solver example_request example_other_ttl))
         = removes example_other_ttl
     \<and> zone_records (snd (CleanUp example_env example_solver example_request example_other_ttl))
         = zone_records example_other_ttl"
    using main example_fetched [of example_other_ttl] differs by blast
  have ok: "fst (Present example_env example_solver example_request example_other_ttl) = None"
    using f by (simp add: example_Present s AddDNSEntry_def example_provider_answers
        DNSEntry_eq_iff [of example_target other_ttl_entry])
  show ?thesis using loop eff ok s f example_fetched [of example_other_ttl] by simp
qed

section \<open>Credential resolution\<close>

lemma gotransip_NewClient_result:
  "gotransip_NewClient E a k w = (r, w') \<Longrightarrow>
     calls w' = calls w @ [CallNewClient a k]
     \<and> (case NewClient_error E a k of Some err \<Rightarrow> r = Inl err | None \<Rightarrow> r = Inr (Client a k))"
  by (auto simp: gotransip_NewClient_def split: option.splits)

text \<open>
  Claim C4. Credential resolution prefers the inline credential. With a non-empty inline
  private key \<open>NewTransipClient\<close> makes no secret lookup, its only call builds the
  client from that key, and a client it returns holds that key. With an empty inline key
  it makes exactly one lookup, of the secret named by the reference in the namespace of
  the challenge; it returns the lookup's error when the lookup fails, and its own error
  when the secret's data has no entry for the referenced key, in both cases without
  building a client; a key that is found is the one the client is built from.
\<close>

theorem NewTransipClient_prefers_inline_key:
  assumes run: "NewTransipClient E c ch cfg w = (r, w')"
    and ns: "ns = ResourceNamespace ch"
    and name: "name = SecretName (PrivateKeySecretRef cfg)"
    and key: "key = SecretKey (PrivateKeySecretRef cfg)"
  shows "(PrivateKey cfg \<noteq> [] \<longrightarrow>
            secret_lookups w' = secret_lookups w
            \<and> calls w' = calls w @ [CallNewClient (AccountName cfg) (PrivateKey cfg)]
            \<and> (\<forall>cl. r = Inr cl \<longrightarrow> cl = Client (AccountName cfg) (PrivateKey cfg)))
    \<and> (PrivateKey cfg = [] \<longrightarrow>
            secret_lookups w' = secret_lookups w @ [CallSecretsGet ns name])
    \<and> (\<forall>err. PrivateKey cfg = [] \<and> client c ns name = Inl err \<longrightarrow>
            r = Inl err \<and> calls w' = calls w @ [CallSecretsGet ns name])
    \<and> (\<forall>secret. PrivateKey cfg = [] \<and> client c ns name = Inr secret
            \<and> Data secret key = None \<longrightarrow>
            r = Inl (NoPrivateKeyInSecret name key ns)
            \<and> calls w' = calls w @ [CallSecretsGet ns name])
    \<and> (\<forall>secret pk. PrivateKey cfg = [] \<and> client c ns name = Inr secret
            \<and> Data secret key = Some pk \<longrightarrow>
            calls w' = calls w @ [CallSecretsGet ns name, CallNewClient (AccountName cfg) pk]
            \<and> (\<forall>cl. r = Inr cl \<longrightarrow> cl = Client (AccountName cfg) pk))"
proof -
  have inline: "secret_lookups w' = secret_lookups w
            \<and> calls w' = calls w @ [CallNewClient (AccountName cfg) (PrivateKey cfg)]
            \<and> (\<forall>cl. r = Inr cl \<longrightarrow> cl = Client (AccountName cfg) (PrivateKey cfg))"
    if "PrivateKey cfg \<noteq> []"
  proof -
    have g: "gotransip_NewClient E (AccountName cfg) (PrivateKey cfg) w = (r, w')"
      using run that by (simp add: NewTransipClient_def)
    show ?thesis
      using gotransip_NewClient_result [OF g] gotransip_NewClient_frame [OF g]
      by (auto split: option.splits)
  qed
  have looked: "secret_lookups w' = secret_lookups w @ [CallSecretsGet ns name]"
    if "PrivateKey cfg = []"
    using run that ns name
    by (auto simp: NewTransipClient_def Secrets_Get_def gotransip_NewClient_def
        split: sum.splits option.splits)
  have absent: "r = Inl err \<and> calls w' = calls w @ [CallSecretsGet ns name]"
    if "PrivateKey cfg = [] \<and> client c ns name = Inl err" for err
    using run that ns name by (auto simp: NewTransipClient_def Secrets_Get_def)
  have nokey: "r = Inl (NoPrivateKeyInSecret name key ns)
            \<and> calls w' = calls w @ [CallSecretsGet ns name]"
    if "PrivateKey cfg = [] \<and> client c ns name = Inr secret \<and> Data secret key = None"
    for secret
    using run that ns name key by (auto simp: NewTransipClient_def Secrets_Get_def)
  have found: "calls w' = calls w @ [CallSecretsGet ns name, CallNewClient (AccountName cfg) pk]
            \<and> (\<forall>cl. r = Inr cl \<longrightarrow> cl = Client (AccountName cfg) pk)"
    if "PrivateKey cfg = [] \<and> client c ns name = Inr secret \<and> Data secret key = Some pk"
    for secret pk
  proof -
    have g: "gotransip_NewClient E (AccountName cfg) pk
               (log_call (CallSecretsGet ns name) w) = (r, w')"
      using run that ns name key by (auto simp: NewTransipClient_def Secrets_Get_def)
    show ?thesis
      using gotransip_NewClient_result [OF g] by (auto split: option.splits)
  qed
  show ?thesis using inline looked absent nokey found by blast
qed

lemma example_secret_store:
  "client example_solver ''default'' ''transip-credentials''
     = Inl (ExternalError ''secret not found'')"
  "client example_solver ''cert-manager'' ''transip-credentials''
     = Inr \<lparr>Data = [''privateKey'' \<mapsto> ''PEM'']\<rparr>"
  by (simp_all add: example_solver_def)

lemma example_config_fields:
  "PrivateKey example_config = []" "AccountName example_config = ''acme''"
  "SecretName (PrivateKeySecretRef example_config) = ''transip-credentials''"
  "SecretKey (PrivateKeySecretRef example_config) = ''privateKey''"
  "PrivateKey inline_key_config = ''INLINE-PEM''" "AccountName inline_key_config = ''acme''"
  "PrivateKey missing_key_config = []"
  "SecretName (PrivateKeySecretRef missing_key_config) = ''transip-credentials''"
  "SecretKey (PrivateKeySecretRef missing_key_config) = ''tls.key''"
  by (simp_all add: example_config_def inline_key_config_def missing_key_config_def)

lemma example_request_namespace:
  "ResourceNamespace example_request = ''cert-manager''"
  "ResourceNamespace other_namespace_request = ''default''"
  by (simp_all add: example_request_def other_namespace_request_def)

theorem NewTransipClient_prefers_inline_key_witness:
  "PrivateKey inline_key_config \<noteq> []
   \<and> secret_lookups (snd (NewTransipClient example_env example_solver example_request
         inline_key_config (example_world []))) = []
   \<and> calls (snd (NewTransipClient example_env example_solver example_request
         inline_key_config (example_world []))) = [CallNewClient ''acme'' ''INLINE-PEM'']
   \<and> PrivateKey example_config = []
   \<and> client example_solver ''default'' ''transip-credentials''
       = Inl (ExternalError ''secret not found'')
   \<and> fst (NewTransipClient example_env example_solver other_namespace_request
         example_config (example_world [])) = Inl (ExternalError ''secret not found'')
   \<and> calls (snd (NewTransipClient example_env example_solver other_namespace_request
         example_config (example_world []))) = [CallSecretsGet ''default'' ''transip-credentials'']
   \<and> PrivateKey missing_key_config = []
   \<and> fst (NewTransipClient example_env example_solver example_request
         missing_key_config (example_world []))
       = Inl (NoPrivateKeyInSecret ''transip-credentials'' ''tls.key'' ''cert-manager'')
   \<and> calls (snd (NewTransipClient example_env example_solver example_request
         example_config (example_world [])))
       = [CallSecretsGet ''cert-manager'' ''transip-credentials'', CallNewClient ''acme'' ''PEM'']"
proof -
  let ?w = "example_world []"
  have e: "calls ?w = []" "secret_lookups ?w = []"
    by (simp_all add: example_world_def secret_lookups_def)
  have pair: "NewTransipClient E c ch cfg w
      = (fst (NewTransipClient E c ch cfg w), snd (NewTransipClient E c ch cfg w))"
    for E c ch cfg w by simp
  have a: "secret_lookups (snd (NewTransipClient example_env example_solver example_request
         inline_key_config ?w)) = []
     \<and> calls (snd (NewTransipClient example_env example_solver example_request
         inline_key_config ?w)) = [CallNewClient ''acme'' ''INLINE-PEM'']"
    using NewTransipClient_prefers_inline_key
        [OF pair [of example_env example_solver example_request inline_key_config ?w]
          refl refl refl]
      e example_config_fields
    by simp
  have b: "fst (NewTransipClient example_env example_solver other_namespace_request
         example_config ?w) = Inl (ExternalError ''secret not found'')
     \<and> calls (snd (NewTransipClient example_env example_solver other_namespace_request
         example_config ?w)) = [CallSecretsGet ''default'' ''transip-credentials'']"
    using NewTransipClient_prefers_inline_key
        [OF pair [of example_env example_solver other_namespace_request example_config ?w]
          refl refl refl]
      e example_config_fields example_request_namespace example_secret_store
    by simp
  have c: "fst (NewTransipClient example_env example_solver example_request
         missing_key_config ?w)
       = Inl (NoPrivateKeyInSecret ''transip-credentials'' ''tls.key'' ''cert-manager'')"
    using NewTransipClient_prefers_inline_key
        [OF pair [of example_env example_solver example_request missing_key_config ?w]
          refl refl refl]
      e example_config_fields example_request_namespace example_secret_store
    by simp
  have d: "calls (snd (NewTransipClient example_env example_solver example_request
         example_config ?w))
       = [CallSecretsGet ''cert-manager'' ''transip-credentials'', CallNewClient ''acme'' ''PEM'']"
    using NewTransipClient_prefers_inline_key
        [OF pair [of example_env example_solver example_request example_config ?w]
          refl refl refl]
      e example_config_fields example_request_namespace example_secret_store
    by simp
  show ?thesis using a b c d example_config_fields example_secret_store by simp
qed

section \<open>Zone resolution\<close>

lemma not_fetched_returns_error:
  assumes nf: "\<not> list_fetched E c ch w"
  shows "fst (Present E c ch w) \<noteq> None \<and> fst (CleanUp E c ch w) \<noteq> None"
proof (cases "loadConfig E (Config ch)")
  case (Pair cfg e)
  show ?thesis
  proof (cases e)
    case (Some err)
    then show ?thesis using Pair by (simp add: Present_config_error CleanUp_config_error)
  next
    case None
    obtain rc w1 where cl: "NewTransipClient E c ch cfg w = (rc, w1)"
      by (cases "NewTransipClient E c ch cfg w")
    show ?thesis
    proof (cases rc)
      case (Inl err)
      then show ?thesis
        using Pair None cl by (simp add: Present_client_error CleanUp_client_error)
    next
      case (Inr k)
      obtain rl w2 where
        ls: "GetDNSEntries E k (extractDomainName E (ResolvedZone ch)) w1 = (rl, w2)"
        by (cases "GetDNSEntries E k (extractDomainName E (ResolvedZone ch)) w1")
      show ?thesis
      proof (cases rl)
        case (Inl err)
        then show ?thesis
          using Pair None cl Inr ls by (simp add: Present_list_error CleanUp_list_error)
      next
        case ok: (Inr xs)
        have "GetDNSEntries_error E (extractDomainName E (ResolvedZone ch)) = None"
          using GetDNSEntries_ok ls ok by blast
        then have "list_fetched E c ch w"
          using Pair None cl Inr by (simp add: list_fetched_def)
        with nf show ?thesis by simp
      qed
    qed
  qed
qed

lemma NewTransipClient_success:
  assumes run: "NewTransipClient E c ch cfg w = (Inr cl, w1)"
  shows "NewClient_error E (AccountName cfg) (ClientPrivateKey cl) = None
     \<and> (PrivateKey cfg = [] \<longrightarrow>
          (\<exists>secret. client c (ResourceNamespace ch) (SecretName (PrivateKeySecretRef cfg))
                       = Inr secret
             \<and> Data secret (SecretKey (PrivateKeySecretRef cfg)) = Some (ClientPrivateKey cl)))"
  using run
  by (auto simp: NewTransipClient_def Secrets_Get_def gotransip_NewClient_def
      split: if_splits sum.splits option.splits)

lemma loadConfig_decoded:
  "fst (loadConfig E cfgJSON)
     = (case cfgJSON of None \<Rightarrow> zero_config
        | Some raw \<Rightarrow> fst (json_Unmarshal E raw zero_config))"
proof (cases cfgJSON)
  case None
  then show ?thesis by (simp add: loadConfig_def)
next
  case (Some raw)
  then show ?thesis
    by (cases "json_Unmarshal E raw zero_config")
       (auto simp: loadConfig_def split: option.splits)
qed

lemma loadConfig_no_error:
  "(snd (loadConfig E cfgJSON) = None)
     = (\<forall>raw. cfgJSON = Some raw \<longrightarrow> snd (json_Unmarshal E raw zero_config) = None)"
proof (cases cfgJSON)
  case None
  then show ?thesis by (simp add: loadConfig_def)
next
  case (Some raw)
  then show ?thesis
    by (cases "json_Unmarshal E raw zero_config")
       (auto simp: loadConfig_def split: option.splits)
qed

lemma NewTransipClient_returns_client:
  "(case fst (NewTransipClient E c ch cfg w) of Inl err \<Rightarrow> False | Inr cl \<Rightarrow> True)
     = (if PrivateKey cfg = []
        then \<exists>secret pk.
               client c (ResourceNamespace ch) (SecretName (PrivateKeySecretRef cfg)) = Inr secret
               \<and> Data secret (SecretKey (PrivateKeySecretRef cfg)) = Some pk
               \<and> NewClient_error E (AccountName cfg) pk = None
        else NewClient_error E (AccountName cfg) (PrivateKey cfg) = None)"
  by (auto simp: NewTransipClient_def Secrets_Get_def gotransip_NewClient_def
      split: sum.splits option.splits)

lemma list_fetched_by_the_libraries:
  assumes "decoded = (case Config ch of None \<Rightarrow> zero_config
                      | Some raw \<Rightarrow> fst (json_Unmarshal E raw zero_config))"
  shows "list_fetched E c ch w
     = ((\<forall>raw. Config ch = Some raw \<longrightarrow> snd (json_Unmarshal E raw zero_config) = None)
        \<and> (if PrivateKey decoded = []
            then \<exists>secret pk.
                   client c (ResourceNamespace ch) (SecretName (PrivateKeySecretRef decoded))
                     = Inr secret
                   \<and> Data secret (SecretKey (PrivateKeySecretRef decoded)) = Some pk
                   \<and> NewClient_error E (AccountName decoded) pk = None
            else NewClient_error E (AccountName decoded) (PrivateKey decoded) = None)
        \<and> GetDNSEntries_error E (extractDomainName E (ResolvedZone ch)) = None)"
  unfolding list_fetched_def loadConfig_no_error NewTransipClient_returns_client
    loadConfig_decoded assms [symmetric]
  by (rule refl)

text \<open>
  Claim C5. Zone resolution never propagates an error: \<open>extractDomainName\<close> returns
  the authoritative zone without its trailing dot when the zone discovery succeeds and
  the zone it was given when the discovery fails. It is the only failure answered by a
  fallback. Present returns nil exactly when the JSON decoder accepted the blob (if there
  is one), the credential was resolved (the client library accepted the inline key, or,
  for an empty inline key, the secret lookup succeeded, the secret held the key and the
  client library accepted it), listing the domain's entries did not fail, and the target
  was already listed or the add did not fail; CleanUp likewise, with the remove in the
  place of the add. So a failure of the decoder, of the secret store, of the client
  library or of a provider call always comes back as an error, while the answer of the
  zone discovery is no part of the condition.
\<close>

theorem zone_resolution_is_the_only_fallback:
  assumes d: "d = extractDomainName E (ResolvedZone ch)"
    and t: "t = target_entry E ch"
    and dec: "decoded = (case Config ch of None \<Rightarrow> zero_config
                         | Some raw \<Rightarrow> fst (json_Unmarshal E raw zero_config))"
  shows "(\<forall>authZone. FindZoneByFqdn E zone = Inr authZone \<longrightarrow>
            extractDomainName E zone
              = (if authZone \<noteq> [] \<and> last authZone = CHR ''.'' then butlast authZone
                 else authZone))
    \<and> (\<forall>err. FindZoneByFqdn E zone = Inl err \<longrightarrow> extractDomainName E zone = zone)
    \<and> t = NewDNSEntryFromChallenge ch decoded d
    \<and> list_fetched E c ch w
        = ((\<forall>raw. Config ch = Some raw \<longrightarrow> snd (json_Unmarshal E raw zero_config) = None)
           \<and> (if PrivateKey decoded = []
               then \<exists>secret pk.
                      client c (ResourceNamespace ch) (SecretName (PrivateKeySecretRef decoded))
                        = Inr secret
                      \<and> Data secret (SecretKey (PrivateKeySecretRef decoded)) = Some pk
                      \<and> NewClient_error E (AccountName decoded) pk = None
               else NewClient_error E (AccountName decoded) (PrivateKey decoded) = None)
           \<and> GetDNSEntries_error E d = None)
    \<and> (fst (Present E c ch w) = None)
        = (list_fetched E c ch w
           \<and> (t \<in> set (zone_records w d) \<or> AddDNSEntry_error E d t = None))
    \<and> (fst (CleanUp E c ch w) = None)
        = (list_fetched E c ch w
           \<and> (t \<notin> set (zone_records w d) \<or> RemoveDNSEntry_error E d t = None))
    \<and> (\<forall>cl w1. NewTransipClient E c ch cfg w = (Inr cl, w1) \<longrightarrow>
          NewClient_error E (AccountName cfg) (ClientPrivateKey cl) = None
          \<and> (PrivateKey cfg = [] \<longrightarrow>
               (\<exists>secret. client c (ResourceNamespace ch) (SecretName (PrivateKeySecretRef cfg))
                            = Inr secret
                  \<and> Data secret (SecretKey (PrivateKeySecretRef cfg))
                      = Some (ClientPrivateKey cl))))"
proof -
  have a: "\<forall>authZone. FindZoneByFqdn E zone = Inr authZone \<longrightarrow>
            extractDomainName E zone
              = (if authZone \<noteq> [] \<and> last authZone = CHR ''.'' then butlast authZone
                 else authZone)"
    by (simp add: extractDomainName_def UnFqdn_trailing_dot)
  have b: "\<forall>err. FindZoneByFqdn E zone = Inl err \<longrightarrow> extractDomainName E zone = zone"
    by (simp add: extractDomainName_def)
  have e: "t = NewDNSEntryFromChallenge ch decoded d"
    using t d dec by (simp add: target_entry_def loadConfig_decoded)
  have l: "list_fetched E c ch w
        = ((\<forall>raw. Config ch = Some raw \<longrightarrow> snd (json_Unmarshal E raw zero_config) = None)
           \<and> (if PrivateKey decoded = []
               then \<exists>secret pk.
                      client c (ResourceNamespace ch) (SecretName (PrivateKeySecretRef decoded))
                        = Inr secret
                      \<and> Data secret (SecretKey (PrivateKeySecretRef decoded)) = Some pk
                      \<and> NewClient_error E (AccountName decoded) pk = None
               else NewClient_error E (AccountName decoded) (PrivateKey decoded) = None)
           \<and> GetDNSEntries_error E d = None)"
    unfolding d by (rule list_fetched_by_the_libraries [OF dec])
  have runp: "Present E c ch w = (fst (Present E c ch w), snd (Present E c ch w))" by simp
  have runc: "CleanUp E c ch w = (fst (CleanUp E c ch w), snd (CleanUp E c ch w))" by simp
  have p: "(fst (Present E c ch w) = None)
        = (list_fetched E c ch w
           \<and> (t \<in> set (zone_records w d) \<or> AddDNSEntry_error E d t = None))"
  proof (cases "list_fetched E c ch w")
    case True
    show ?thesis
    proof (cases "t \<in> set (zone_records w d)")
      case hit: True
      then show ?thesis using Present_outcome [OF runp True d t] True by simp
    next
      case False
      then have "fst (Present E c ch w) = AddDNSEntry_error E d t"
        using Present_outcome [OF runp True d t] by simp
      then show ?thesis using True False by simp
    qed
  next
    case False
    then show ?thesis using not_fetched_returns_error [OF False] by simp
  qed
  have q: "(fst (CleanUp E c ch w) = None)
        = (list_fetched E c ch w
           \<and> (t \<notin> set (zone_records w d) \<or> RemoveDNSEntry_error E d t = None))"
  proof (cases "list_fetched E c ch w")
    case True
    have out: "(t \<notin> set (zone_records w d) \<and> fst (CleanUp E c ch w) = None)
        \<or> (t \<in> set (zone_records w d)
            \<and> fst (CleanUp E c ch w) = RemoveDNSEntry_error E d t)"
      using CleanUp_outcome [OF runc d t] True by blast
    show ?thesis
    proof (cases "t \<in> set (zone_records w d)")
      case hit: True
      then have "fst (CleanUp E c ch w) = RemoveDNSEntry_error E d t" using out by blast
      then show ?thesis using True hit by simp
    next
      case False
      then have "fst (CleanUp E c ch w) = None" using out by blast
      then show ?thesis using True False by simp
    qed
  next
    case False
    then show ?thesis using not_fetched_returns_error [OF False] by simp
  qed
  have n: "\<forall>cl w1. NewTransipClient E c ch cfg w = (Inr cl, w1) \<longrightarrow>
          NewClient_error E (AccountName cfg) (ClientPrivateKey cl) = None
          \<and> (PrivateKey cfg = [] \<longrightarrow>
               (\<exists>secret. client c (ResourceNamespace ch) (SecretName (PrivateKeySecretRef cfg))
                            = Inr secret
                  \<and> Data secret (SecretKey (PrivateKeySecretRef cfg))
                      = Some (ClientPrivateKey cl)))"
    using NewTransipClient_success by blast
  from a b e l p q n show ?thesis by (intro conjI)
qed

lemma no_zone_domain:
  "FindZoneByFqdn no_zone_env ''example.com.'' = Inl (ExternalError ''no SOA record'')"
  "extractDomainName no_zone_env (ResolvedZone example_request) = ''example.com.''"
  by (simp_all add: extractDomainName_def no_zone_env_def example_request_def)

lemma no_zone_Present:
  "fst (Present no_zone_env example_solver example_request example_start) = None"
proof -
  have cfg: "loadConfig no_zone_env (Config example_request) = (example_config, None)"
    by (simp add: loadConfig_def no_zone_env_def example_request_def example_env_def)
  have cl: "NewTransipClient no_zone_env example_solver example_request example_config w
     = (Inr (Client ''acme'' ''PEM''),
        log_call (CallNewClient ''acme'' ''PEM'')
          (log_call (CallSecretsGet ''cert-manager'' ''transip-credentials'') w))" for w
    by (simp add: NewTransipClient_def no_zone_env_def example_env_def example_request_def
        example_solver_def example_config_def Secrets_Get_def gotransip_NewClient_def)
  have ls: "GetDNSEntries no_zone_env k ''example.com.'' w
     = (Inr (zone_records w ''example.com.''), log_call (CallGetDNSEntries ''example.com.'') w)"
    for k w
    by (simp add: GetDNSEntries_def no_zone_env_def example_env_def)
  have en: "NewDNSEntryFromChallenge example_request example_config ''example.com.''
      = example_target"
    by (simp add: NewDNSEntryFromChallenge_def example_request_def example_config_def
        example_target_def extractRecordName_def)
  have z: "zone_records example_start ''example.com.'' = []"
    by (simp add: example_start_def example_world_def)
  have ad: "AddDNSEntry_error no_zone_env dn e = None" for dn e
    by (simp add: no_zone_env_def example_env_def)
  show ?thesis
    by (simp add: Present_def Let_def no_zone_domain cfg cl ls en z Present_loop_mem
        AddDNSEntry_def ad)
qed


theorem zone_resolution_is_the_only_fallback_witness:
  "FindZoneByFqdn no_zone_env ''example.com.'' = Inl (ExternalError ''no SOA record'')
   \<and> extractDomainName no_zone_env ''example.com.'' = ''example.com.''
   \<and> FindZoneByFqdn example_env ''example.com.'' = Inr ''example.com.''
   \<and> extractDomainName example_env ''example.com.'' = ''example.com''
   \<and> fst (Present no_zone_env example_solver example_request example_start) = None
   \<and> list_fetched no_zone_env example_solver example_request example_start
   \<and> snd (json_Unmarshal no_zone_env example_raw zero_config) = None
   \<and> GetDNSEntries_error no_zone_env ''example.com.'' = None
   \<and> fst (CleanUp example_env example_solver example_request example_start) = None
   \<and> list_fetched example_env example_solver example_request example_start
   \<and> snd (json_Unmarshal example_env ''accountName: acme'' zero_config) \<noteq> None
   \<and> \<not> list_fetched example_env example_solver undecodable_request example_start
   \<and> fst (Present example_env example_solver undecodable_request example_start) \<noteq> None
   \<and> fst (CleanUp example_env example_solver undecodable_request example_start) \<noteq> None
   \<and> fst (NewTransipClient example_env example_solver example_request example_config
            example_start) = Inr (Client ''acme'' ''PEM'')
   \<and> NewClient_error example_env ''acme'' ''PEM'' = None"
proof -
  have z1: "FindZoneByFqdn example_env ''example.com.'' = Inr ''example.com.''"
    by (simp add: example_env_def)
  have cfg: "Config example_request = Some example_raw"
    "Config undecodable_request = Some ''accountName: acme''"
    by (simp_all add: example_request_def undecodable_request_def)
  have bad: "snd (json_Unmarshal example_env ''accountName: acme'' zero_config) \<noteq> None"
    by (simp add: example_env_def example_raw_def)
  note nz = zone_resolution_is_the_only_fallback [OF refl refl refl, where E = no_zone_env
        and ch = example_request and zone = "''example.com.''" and c = example_solver
        and w = example_start]
  have a1: "extractDomainName no_zone_env ''example.com.'' = ''example.com.''"
    using nz no_zone_domain by blast
  have a2: "list_fetched no_zone_env example_solver example_request example_start"
    using nz no_zone_Present by blast
  have a3: "snd (json_Unmarshal no_zone_env example_raw zero_config) = None
      \<and> GetDNSEntries_error no_zone_env ''example.com.'' = None"
    using nz a2 cfg no_zone_domain by simp
  have cu: "fst (CleanUp example_env example_solver example_request example_start) = None"
    using example_entries_differ
    by (simp add: example_CleanUp example_start_def example_world_def)
  note ok = zone_resolution_is_the_only_fallback [OF refl refl refl, where E = example_env
        and ch = example_request and zone = "''example.com.''" and c = example_solver
        and w = example_start and cfg = example_config]
  have b1: "extractDomainName example_env ''example.com.'' = ''example.com''"
    using ok z1 by simp
  have b2: "list_fetched example_env example_solver example_request example_start"
    using ok cu by blast
  have b3: "NewClient_error example_env (AccountName example_config)
            (ClientPrivateKey (Client ''acme'' ''PEM'')) = None"
    using ok example_client [of example_start] by blast
  note un = zone_resolution_is_the_only_fallback [OF refl refl refl, where E = example_env
        and ch = undecodable_request and zone = "''example.com.''" and c = example_solver
        and w = example_start]
  have c1: "\<not> list_fetched example_env example_solver undecodable_request example_start"
    using un cfg bad by simp
  have c2: "fst (Present example_env example_solver undecodable_request example_start) \<noteq> None
      \<and> fst (CleanUp example_env example_solver undecodable_request example_start) \<noteq> None"
    using un c1 by blast
  show ?thesis
    using a1 a2 a3 b1 b2 b3 c1 c2 z1 cu bad no_zone_domain no_zone_Present
      example_client [of example_start]
    by (simp add: example_config_def)
qed

section \<open>Configuration decoding\<close>

text \<open>
  Claim C9. \<open>loadConfig\<close> treats an absent configuration as valid: for a nil blob it
  returns the zero-valued configuration (empty account name, empty private key, empty
  secret reference, TTL 0) and no error; it returns an error exactly when a blob is
  present and the JSON decoder rejects it for the configuration struct.
\<close>

theorem loadConfig_absent_configuration:
  "loadConfig E None = (zero_config, None)
   \<and> AccountName zero_config = [] \<and> PrivateKey zero_config = []
   \<and> SecretName (PrivateKeySecretRef zero_config) = []
   \<and> SecretKey (PrivateKeySecretRef zero_config) = []
   \<and> TTL zero_config = 0
   \<and> (snd (loadConfig E cfgJSON) \<noteq> None)
       = (\<exists>raw. cfgJSON = Some raw \<and> snd (json_Unmarshal E raw zero_config) \<noteq> None)"
proof -
  have "(snd (loadConfig E cfgJSON) \<noteq> None)
       = (\<exists>raw. cfgJSON = Some raw \<and> snd (json_Unmarshal E raw zero_config) \<noteq> None)"
  proof (cases cfgJSON)
    case None
    then show ?thesis by (simp add: loadConfig_def)
  next
    case (Some raw)
    then show ?thesis
      by (cases "json_Unmarshal E raw zero_config")
         (auto simp: loadConfig_def split: option.splits)
  qed
  then show ?thesis by (simp add: loadConfig_def zero_config_def)
qed

theorem loadConfig_absent_configuration_witness:
  "loadConfig example_env None = (zero_config, None)
   \<and> snd (json_Unmarshal example_env ''accountName: acme'' zero_config) \<noteq> None
   \<and> snd (loadConfig example_env (Some ''accountName: acme'')) \<noteq> None
   \<and> snd (json_Unmarshal example_env example_raw zero_config) = None
   \<and> snd (loadConfig example_env (Some example_raw)) = None"
proof -
  have bad: "snd (json_Unmarshal example_env ''accountName: acme'' zero_config) \<noteq> None"
    by (simp add: example_env_def example_raw_def)
  have good: "snd (json_Unmarshal example_env example_raw zero_config) = None"
    by (simp add: example_env_def)
  show ?thesis
    using loadConfig_absent_configuration [of example_env "Some ''accountName: acme''"]
      loadConfig_absent_configuration [of example_env "Some example_raw"] bad good
    by simp
qed

end
